theory Spec2Isabelle
  imports Main "HOL-Library.Sublist"
begin

section \<open>Python values, namespaces and exceptions\<close>

text \<open>
  \<^verbatim>\<open>deploy.py\<close> handles two kinds of values: strings and \<^verbatim>\<open>None\<close> (the default
  of every attribute that \<^verbatim>\<open>argparse\<close> has not filled in). An \<^verbatim>\<open>argparse.Namespace\<close>
  is a bag of attributes: a finite map from attribute names to values. Reading an
  attribute that is not there raises \<^verbatim>\<open>AttributeError\<close>.
\<close>

datatype pyval = PyNone | PyStr string

type_synonym namespace = "string \<rightharpoonup> pyval"

text \<open>What the argument parser can complain about (the text after \<^verbatim>\<open>deploy: error:\<close>).\<close>

datatype arg_error =
    InvalidChoice string
  | RequiredMissing "string list"
  | ExpectedOneArgument string
  | IgnoredExplicitArgument string
  | AmbiguousOption string "string list"
  | UnrecognizedArguments "string list"

text \<open>
  \<^verbatim>\<open>parser.exit()\<close> after the help text (status 0, help on standard output) and
  \<^verbatim>\<open>parser.error(msg)\<close> (usage and message on standard error, status 2).
\<close>

datatype sys_exit = HelpExit | ErrorExit arg_error

fun exit_code :: "sys_exit \<Rightarrow> int" where
  "exit_code HelpExit = 0"
| "exit_code (ErrorExit e) = 2"

datatype error =
    AttributeError string
  | TypeError
  | IndexError
  | OSError
  | ValueError string
  | CalledProcessError int "string list"
  | SystemExit sys_exit

definition and_then :: "'e + 'a \<Rightarrow> ('a \<Rightarrow> 'e + 'b) \<Rightarrow> 'e + 'b" where
  "and_then r f = (case r of Inl e \<Rightarrow> Inl e | Inr v \<Rightarrow> f v)"

definition getattr :: "namespace \<Rightarrow> string \<Rightarrow> error + pyval" where
  "getattr args k = (case args k of None \<Rightarrow> Inl (AttributeError k) | Some v \<Rightarrow> Inr v)"

text \<open>A replacement field of an f-string: \<^verbatim>\<open>f'{v}'\<close> is \<^verbatim>\<open>str(v)\<close>.\<close>

fun format_value :: "pyval \<Rightarrow> string" where
  "format_value PyNone = ''None''"
| "format_value (PyStr s) = s"

section \<open>The command lists of the five actions\<close>

text \<open>
  Each \<^verbatim>\<open>deploy_*\<close> function first evaluates a list display, left to right; the
  definitions below are those list displays. An element is a string, or whatever
  \<^verbatim>\<open>args.name\<close> holds where the attribute is used bare.
\<close>

definition deploy_local_train_command :: "namespace \<Rightarrow> error + pyval list" where
  "deploy_local_train_command args = Inr
     [PyStr ''powershell.exe'',
      PyStr ''gcloud'', PyStr ''ai-platform'', PyStr ''local'', PyStr ''train'',
      PyStr ''--package-path'', PyStr ''modeling'',
      PyStr ''--module-name'', PyStr ''modeling.trainer.model'',
      PyStr ''--job-dir'', PyStr ''local-training-output'',
      PyStr ''--'',
      PyStr ''--run_location=local'',
      PyStr ''--bucket=None'']"

definition deploy_trainer_command :: "namespace \<Rightarrow> error + pyval list" where
  "deploy_trainer_command args =
     and_then (getattr args ''name'') (\<lambda>name.
     and_then (getattr args ''bucket'') (\<lambda>bucket1.
     and_then (getattr args ''bucket'') (\<lambda>bucket2.
     and_then (getattr args ''path'') (\<lambda>path. Inr
       [PyStr ''powershell.exe'',
        PyStr ''gcloud'', PyStr ''ai-platform'',
        PyStr ''jobs'', PyStr ''submit'', PyStr ''training'',
        name,
        PyStr ''--package-path'', PyStr ''modeling'',
        PyStr ''--module-name'', PyStr ''modeling.trainer.model'',
        PyStr ''--staging-bucket'', PyStr (''gs://'' @ format_value bucket1),
        PyStr ''--python-version'', PyStr ''3.7'',
        PyStr ''--runtime-version'', PyStr ''1.15'',
        PyStr ''--'',
        PyStr (''--bucket='' @ format_value bucket2),
        PyStr (''--path='' @ format_value path)]))))"

definition deploy_local_batch_train_command :: "namespace \<Rightarrow> error + pyval list" where
  "deploy_local_batch_train_command args =
     and_then (getattr args ''project'') (\<lambda>project.
     and_then (getattr args ''dataset_table'') (\<lambda>dataset_table. Inr
       [PyStr ''powershell.exe'',
        PyStr ''gcloud'', PyStr ''ai-platform'', PyStr ''local'', PyStr ''train'',
        PyStr ''--package-path'', PyStr ''modeling'',
        PyStr ''--module-name'', PyStr ''modeling.trainer.batch_model'',
        PyStr ''--job-dir'', PyStr ''local-training-output'',
        PyStr ''--'',
        PyStr ''--run_location=local'',
        PyStr ''--bucket=None'',
        PyStr (''--project='' @ format_value project),
        PyStr (''--dataset_table='' @ format_value dataset_table)]))"

definition deploy_batch_trainer_command :: "namespace \<Rightarrow> error + pyval list" where
  "deploy_batch_trainer_command args =
     and_then (getattr args ''name'') (\<lambda>name.
     and_then (getattr args ''bucket'') (\<lambda>bucket1.
     and_then (getattr args ''bucket'') (\<lambda>bucket2.
     and_then (getattr args ''project'') (\<lambda>project.
     and_then (getattr args ''dataset_table'') (\<lambda>dataset_table. Inr
       [PyStr ''powershell.exe'',
        PyStr ''gcloud'', PyStr ''ai-platform'',
        PyStr ''jobs'', PyStr ''submit'', PyStr ''training'',
        name,
        PyStr ''--package-path'', PyStr ''modeling'',
        PyStr ''--module-name'', PyStr ''modeling.trainer.batch_model'',
        PyStr ''--staging-bucket'', PyStr (''gs://'' @ format_value bucket1),
        PyStr ''--python-version'', PyStr ''3.7'',
        PyStr ''--runtime-version'', PyStr ''1.15'',
        PyStr ''--'',
        PyStr (''--bucket='' @ format_value bucket2),
        PyStr (''--project='' @ format_value project),
        PyStr (''--dataset_table='' @ format_value dataset_table)])))))"

definition deploy_predictor_command :: "namespace \<Rightarrow> error + pyval list" where
  "deploy_predictor_command args =
     and_then (getattr args ''version'') (\<lambda>version.
     and_then (getattr args ''model'') (\<lambda>model.
     and_then (getattr args ''origin'') (\<lambda>origin.
     and_then (getattr args ''package_path'') (\<lambda>package_path. Inr
       [PyStr ''powershell.exe'',
        PyStr ''gcloud'', PyStr ''beta'', PyStr ''ai-platform'',
        PyStr ''versions'', PyStr ''create'', PyStr (format_value version),
        PyStr ''--model'', PyStr (format_value model),
        PyStr ''--runtime-version'', PyStr ''1.15'',
        PyStr ''--python-version'', PyStr ''3.7'',
        PyStr ''--origin'', PyStr (format_value origin),
        PyStr ''--package-uris'', PyStr (format_value package_path),
        PyStr ''--prediction-class'', PyStr ''modeling.predictor.predictor.Predictor'',
        PyStr ''--verbosity=debug'']))))"

section \<open>Running the command\<close>

text \<open>
  \<^verbatim>\<open>subprocess.run(command)\<close> hands the list to the operating system and waits for the
  child. What the child does is not the program's business: it is the parameter
  \<open>world\<close>, which says for each command line whether a process could be started and
  with which status it exited, if it ever does. The state threaded through the calls
  is the list of command lines for which a process was started, oldest first.
  A function that does not return (the child never exits) has the result \<open>None\<close>.
\<close>

datatype child = Exited int | SpawnFailed | NeverExits

type_synonym world = "string list \<Rightarrow> child"

type_synonym launches = "string list list"

record completed_process =
  cp_args :: "string list"
  returncode :: int

fun as_strings :: "pyval list \<Rightarrow> string list option" where
  "as_strings [] = Some []"
| "as_strings (PyNone # vs) = None"
| "as_strings (PyStr s # vs) = map_option (\<lambda>ss. s # ss) (as_strings vs)"

definition subprocess_run ::
  "world \<Rightarrow> pyval list \<Rightarrow> launches \<Rightarrow> launches \<times> (error + completed_process) option" where
  "subprocess_run w command ls =
     (case as_strings command of
        None \<Rightarrow> (ls, Some (Inl TypeError))
      | Some argv \<Rightarrow>
          (case w argv of
             SpawnFailed \<Rightarrow> (ls, Some (Inl OSError))
           | NeverExits \<Rightarrow> (ls @ [argv], None)
           | Exited rc \<Rightarrow> (ls @ [argv], Some (Inr \<lparr>cp_args = argv, returncode = rc\<rparr>))))"

definition check_returncode :: "completed_process \<Rightarrow> error + pyval" where
  "check_returncode result =
     (if returncode result \<noteq> 0
      then Inl (CalledProcessError (returncode result) (cp_args result))
      else Inr PyNone)"

text \<open>
  The two statements every \<^verbatim>\<open>deploy_*\<close> function ends with:
  \<^verbatim>\<open>result = subprocess.run(command); return result.check_returncode()\<close>,
  after the list display, which may already have raised.
\<close>

definition run_command ::
  "world \<Rightarrow> error + pyval list \<Rightarrow> launches \<Rightarrow> launches \<times> (error + pyval) option" where
  "run_command w built ls =
     (case built of
        Inl e \<Rightarrow> (ls, Some (Inl e))
      | Inr command \<Rightarrow>
          (case subprocess_run w command ls of
             (ls', None) \<Rightarrow> (ls', None)
           | (ls', Some (Inl e)) \<Rightarrow> (ls', Some (Inl e))
           | (ls', Some (Inr result)) \<Rightarrow> (ls', Some (check_returncode result))))"

definition deploy_local_train ::
  "world \<Rightarrow> namespace \<Rightarrow> launches \<Rightarrow> launches \<times> (error + pyval) option" where
  "deploy_local_train w args = run_command w (deploy_local_train_command args)"

definition deploy_trainer ::
  "world \<Rightarrow> namespace \<Rightarrow> launches \<Rightarrow> launches \<times> (error + pyval) option" where
  "deploy_trainer w args = run_command w (deploy_trainer_command args)"

definition deploy_local_batch_train ::
  "world \<Rightarrow> namespace \<Rightarrow> launches \<Rightarrow> launches \<times> (error + pyval) option" where
  "deploy_local_batch_train w args = run_command w (deploy_local_batch_train_command args)"

definition deploy_batch_trainer ::
  "world \<Rightarrow> namespace \<Rightarrow> launches \<Rightarrow> launches \<times> (error + pyval) option" where
  "deploy_batch_trainer w args = run_command w (deploy_batch_trainer_command args)"

definition deploy_predictor ::
  "world \<Rightarrow> namespace \<Rightarrow> launches \<Rightarrow> launches \<times> (error + pyval) option" where
  "deploy_predictor w args = run_command w (deploy_predictor_command args)"

section \<open>The argument parser\<close>

text \<open>
  \<^verbatim>\<open>parse()\<close> configures an \<^verbatim>\<open>argparse.ArgumentParser\<close> and calls \<^verbatim>\<open>parse_args()\<close>
  on \<^verbatim>\<open>sys.argv[1:]\<close>. The configuration is in \<^verbatim>\<open>deploy.py\<close>; what it means is
  decided by the standard library. This section follows \<^verbatim>\<open>argparse.py\<close> of
  CPython 3.11 (\<^verbatim>\<open>_parse_known_args\<close>, \<^verbatim>\<open>_parse_optional\<close>, \<^verbatim>\<open>_get_option_tuples\<close>,
  \<^verbatim>\<open>_SubParsersAction.__call__\<close>) for the kinds of argument \<^verbatim>\<open>deploy.py\<close> declares:
  the help option every parser gets (\<^verbatim>\<open>add_help=True\<close>), options that store one
  string, and one sub-command positional.
\<close>

datatype action = HelpAction | StoreAction string string bool
  \<comment> \<open>\<open>StoreAction option_string dest required\<close>\<close>

text \<open>\<^verbatim>\<open>parser._option_string_actions\<close>, in insertion order.\<close>

type_synonym optionals = "(string \<times> action) list"

definition ArgumentParser :: optionals where
  "ArgumentParser = [(''-h'', HelpAction), (''--help'', HelpAction)]"

text \<open>The attribute an option is stored under: prefix characters stripped, \<^verbatim>\<open>-\<close> to \<^verbatim>\<open>_\<close>.\<close>

definition dest_of :: "string \<Rightarrow> string" where
  "dest_of option_string =
     map (\<lambda>c. if c = CHR ''-'' then CHR ''_'' else c)
       (dropWhile (\<lambda>c. c = CHR ''-'') option_string)"

definition add_argument :: "optionals \<Rightarrow> string \<Rightarrow> bool \<Rightarrow> optionals" where
  "add_argument parser option_string req =
     parser @ [(option_string, StoreAction option_string (dest_of option_string) req)]"

definition local_train_parser :: optionals where
  "local_train_parser = ArgumentParser"

definition train_parser :: optionals where
  "train_parser =
     add_argument (add_argument (add_argument ArgumentParser
       ''--bucket'' True) ''--path'' True) ''--name'' True"

definition local_batch_train_parser :: optionals where
  "local_batch_train_parser =
     add_argument (add_argument ArgumentParser
       ''--project'' True) ''--dataset_table'' True"

definition batch_train_parser :: optionals where
  "batch_train_parser =
     add_argument (add_argument (add_argument (add_argument ArgumentParser
       ''--bucket'' True) ''--name'' True) ''--project'' True) ''--dataset_table'' True"

definition predict_parser :: optionals where
  "predict_parser =
     add_argument (add_argument (add_argument (add_argument ArgumentParser
       ''--version'' True) ''--model'' True) ''--origin'' True) ''--package-path'' True"

text \<open>\<^verbatim>\<open>sub_parsers._name_parser_map\<close>, in the order of the \<^verbatim>\<open>add_parser\<close> calls.\<close>

definition sub_parsers :: "(string \<times> optionals) list" where
  "sub_parsers =
     [(''local_train'', local_train_parser),
      (''train'', train_parser),
      (''local_batch_train'', local_batch_train_parser),
      (''batch_train'', batch_train_parser),
      (''predict'', predict_parser)]"

subsection \<open>Telling options from arguments\<close>

datatype arg_class =
    Arg
  | Dashes
  | Opt "(action \<times> string \<times> string option \<times> string option) option"
  \<comment> \<open>\<open>Opt None\<close>: looks like an option, but this parser has none of that name;
      otherwise the action, its option string, the separator and the explicit argument\<close>

fun is_opt :: "arg_class \<times> string \<Rightarrow> bool" where
  "is_opt (Opt t, s) = True"
| "is_opt (c, s) = False"

text \<open>\<^verbatim>\<open>s.partition('=')\<close>: the part before the first \<^verbatim>\<open>=\<close>, and the part after it if there is one.\<close>

definition partition_eq :: "string \<Rightarrow> string \<times> string option" where
  "partition_eq s =
     (takeWhile (\<lambda>c. c \<noteq> CHR ''='') s,
      if CHR ''='' \<in> set s then Some (tl (dropWhile (\<lambda>c. c \<noteq> CHR ''='') s)) else None)"

definition is_digit :: "char \<Rightarrow> bool" where
  "is_digit c = (c \<in> set ''0123456789'')"

text \<open>
  \<^verbatim>\<open>_negative_number_matcher\<close>, the pattern \<^verbatim>\<open>^-\d+$|^-\d*\.\d+$\<close>; \<^verbatim>\<open>$\<close> also matches
  just before a final newline. Digits are the ASCII ones.
\<close>

definition negative_number :: "string \<Rightarrow> bool" where
  "negative_number s =
     (let t = (if s \<noteq> [] \<and> last s = CHR 0x0A then butlast s else s) in
      case t of
        [] \<Rightarrow> False
      | c # r \<Rightarrow>
          c = CHR ''-'' \<and>
          ((r \<noteq> [] \<and> list_all is_digit r) \<or>
           (case dropWhile is_digit r of
              [] \<Rightarrow> False
            | d # f \<Rightarrow> d = CHR ''.'' \<and> f \<noteq> [] \<and> list_all is_digit f)))"

text \<open>
  \<^verbatim>\<open>_get_option_tuples\<close>, called on strings of at least two characters that start
  with \<^verbatim>\<open>-\<close>: a long option may be abbreviated to any prefix that includes \<^verbatim>\<open>--\<close>;
  a short option may carry its argument in the same string.
\<close>

fun get_option_tuples ::
  "optionals \<Rightarrow> string \<Rightarrow> (action \<times> string \<times> string option \<times> string option) list" where
  "get_option_tuples opts (c0 # c1 # cs) =
     (if c1 = CHR ''-'' then
        (let (option_prefix, explicit_arg) = partition_eq (c0 # c1 # cs);
             sep = map_option (\<lambda>e. ''='') explicit_arg
         in concat (map (\<lambda>(option_string, action).
              if prefix option_prefix option_string
              then [(action, option_string, sep, explicit_arg)] else []) opts))
      else
        concat (map (\<lambda>(option_string, action).
          if option_string = [c0, c1] then [(action, option_string, Some [], Some cs)]
          else if prefix (c0 # c1 # cs) option_string then [(action, option_string, None, None)]
          else []) opts))"
| "get_option_tuples opts s = []"

definition parse_optional :: "optionals \<Rightarrow> string \<Rightarrow> sys_exit + arg_class" where
  "parse_optional opts arg_string =
     (if arg_string = [] then Inr Arg
      else if hd arg_string \<noteq> CHR ''-'' then Inr Arg
      else case map_of opts arg_string of
        Some action \<Rightarrow> Inr (Opt (Some (action, arg_string, None, None)))
      | None \<Rightarrow>
          if length arg_string = 1 then Inr Arg
          else
            (let (option_string, explicit_arg) = partition_eq arg_string in
             case (explicit_arg, map_of opts option_string) of
               (Some e, Some action) \<Rightarrow> Inr (Opt (Some (action, option_string, Some ''='', Some e)))
             | _ \<Rightarrow>
                 (let option_tuples = get_option_tuples opts arg_string in
                  if length option_tuples > 1
                  then Inl (ErrorExit (AmbiguousOption arg_string (map (\<lambda>t. fst (snd t)) option_tuples)))
                  else if length option_tuples = 1 then Inr (Opt (Some (hd option_tuples)))
                  else if negative_number arg_string
                          \<and> \<not> list_ex (\<lambda>(option_string, action). negative_number option_string) opts
                  then Inr Arg
                  else if CHR '' '' \<in> set arg_string then Inr Arg
                  else Inr (Opt None))))"

text \<open>Everything after a \<^verbatim>\<open>--\<close> is an argument.\<close>

fun classify :: "optionals \<Rightarrow> string list \<Rightarrow> sys_exit + (arg_class \<times> string) list" where
  "classify opts [] = Inr []"
| "classify opts (a # as) =
     (if a = ''--'' then Inr ((Dashes, a) # map (\<lambda>x. (Arg, x)) as)
      else and_then (parse_optional opts a) (\<lambda>c.
           and_then (classify opts as) (\<lambda>cs. Inr ((c, a) # cs))))"

subsection \<open>Consuming options and the sub-command\<close>

record pstate =
  namespace :: namespace
  seen_actions :: "action list"
  extras :: "string list"
  unrecognized :: "string list"

datatype step = PrintHelp | Store action string

text \<open>The help action has \<^verbatim>\<open>dest=SUPPRESS\<close>, the string \<^verbatim>\<open>==SUPPRESS==\<close>.\<close>

fun action_dest :: "action \<Rightarrow> string" where
  "action_dest HelpAction = ''==SUPPRESS==''"
| "action_dest (StoreAction option_string dest req) = dest"

text \<open>
  \<^verbatim>\<open>consume_optional\<close>, the loop that collects \<^verbatim>\<open>action_tuples\<close> for the option at
  the current index: the steps to take, strings for \<^verbatim>\<open>extras\<close>, and how many of the
  following strings the option uses. An option that stores a value needs exactly one
  argument: its explicit one, or else the next string, which must be classified as an
  argument. The help option takes none; written with one dash, further one-letter
  options may follow it in the same string. \<open>option_string\<close> always starts with a dash.
\<close>

fun consume_optional ::
  "optionals \<Rightarrow> (arg_class \<times> string) list \<Rightarrow> action \<Rightarrow> string \<Rightarrow> string option \<Rightarrow> string option
     \<Rightarrow> sys_exit + (step list \<times> string list \<times> nat)" where
  "consume_optional opts following action option_string sep None =
     (case action of
        HelpAction \<Rightarrow> Inr ([PrintHelp], [], 0)
      | StoreAction os d r \<Rightarrow>
          (case following of
             (Arg, v) # rest \<Rightarrow> Inr ([Store action v], [], 1)
           | _ \<Rightarrow> Inl (ErrorExit (ExpectedOneArgument option_string))))"
| "consume_optional opts following action option_string sep (Some explicit_arg) =
     (case action of
        StoreAction os d r \<Rightarrow> Inr ([Store action explicit_arg], [], 0)
      | HelpAction \<Rightarrow>
          if \<not> prefix ''--'' option_string \<and> explicit_arg \<noteq> [] then
            if (sep \<noteq> None \<and> sep \<noteq> Some []) \<or> hd explicit_arg = CHR ''-''
            then Inl (ErrorExit (IgnoredExplicitArgument explicit_arg))
            else
              (case map_of opts [CHR ''-'', hd explicit_arg] of
                 None \<Rightarrow> Inr ([PrintHelp], [CHR ''-'' # explicit_arg], 0)
               | Some action' \<Rightarrow>
                   and_then
                     (consume_optional opts following action' [CHR ''-'', hd explicit_arg]
                        (if tl explicit_arg = [] then None
                         else if hd (tl explicit_arg) = CHR ''='' then Some ''=''
                         else Some [])
                        (if tl explicit_arg = [] then None
                         else if hd (tl explicit_arg) = CHR ''='' then Some (tl (tl explicit_arg))
                         else Some (tl explicit_arg)))
                     (\<lambda>(steps, ex, n). Inr (PrintHelp # steps, ex, n)))
          else Inl (ErrorExit (IgnoredExplicitArgument explicit_arg)))"

text \<open>\<^verbatim>\<open>take_action\<close>: printing the help exits; a store sets the attribute.\<close>

fun take_actions :: "pstate \<Rightarrow> step list \<Rightarrow> sys_exit + pstate" where
  "take_actions st [] = Inr st"
| "take_actions st (PrintHelp # steps) = Inl HelpExit"
| "take_actions st (Store action v # steps) =
     take_actions
       (st\<lparr>namespace := (namespace st)(action_dest action \<mapsto> PyStr v),
           seen_actions := seen_actions st @ [action]\<rparr>) steps"

text \<open>
  The pattern of a sub-command positional (\<^verbatim>\<open>nargs=PARSER\<close>, \<^verbatim>\<open>(-*A[-AO]*)\<close>) matches
  when, after any \<^verbatim>\<open>--\<close>, an argument comes next; it then takes all the strings left.
\<close>

definition matches_parser :: "(arg_class \<times> string) list \<Rightarrow> bool" where
  "matches_parser cs =
     (case dropWhile (\<lambda>(c, s). c = Dashes) cs of (Arg, s) # rest \<Rightarrow> True | _ \<Rightarrow> False)"

text \<open>
  The main loop of \<^verbatim>\<open>_parse_known_args\<close>. \<open>positional\<close> is the sub-command action
  while it has not been used, given as what it does with the strings it takes.
  While an option lies ahead, positionals and options are consumed alternately;
  strings that nothing takes go to \<open>extras\<close>. After the last option the positional
  gets a last chance, and whatever is left is extra.
\<close>

fun consume ::
  "optionals \<Rightarrow> (string list \<Rightarrow> pstate \<Rightarrow> sys_exit + pstate) option \<Rightarrow> pstate
     \<Rightarrow> (arg_class \<times> string) list \<Rightarrow> sys_exit + pstate" where
  "consume opts positional st [] = Inr st"
| "consume opts positional st ((c, s) # cs) =
     (if list_ex is_opt ((c, s) # cs) then
        (case c of
           Opt None \<Rightarrow> consume opts positional (st\<lparr>extras := extras st @ [s]\<rparr>) cs
         | Opt (Some (action, option_string, sep, explicit_arg)) \<Rightarrow>
             (case consume_optional opts cs action option_string sep explicit_arg of
                Inl e \<Rightarrow> Inl e
              | Inr (steps, ex, n) \<Rightarrow>
                  (case take_actions (st\<lparr>extras := extras st @ ex\<rparr>) steps of
                     Inl e \<Rightarrow> Inl e
                   | Inr st' \<Rightarrow> consume opts positional st' (drop n cs)))
         | _ \<Rightarrow>
             (case positional of
                Some call \<Rightarrow>
                  if matches_parser ((c, s) # cs) then call (map snd ((c, s) # cs)) st
                  else consume opts positional (st\<lparr>extras := extras st @ [s]\<rparr>) cs
              | None \<Rightarrow> consume opts positional (st\<lparr>extras := extras st @ [s]\<rparr>) cs))
      else
        (case positional of
           Some call \<Rightarrow>
             if matches_parser ((c, s) # cs) then call (map snd ((c, s) # cs)) st
             else Inr (st\<lparr>extras := extras st @ map snd ((c, s) # cs)\<rparr>)
         | None \<Rightarrow> Inr (st\<lparr>extras := extras st @ map snd ((c, s) # cs)\<rparr>)))"

text \<open>Each attribute starts as its default, \<^verbatim>\<open>None\<close>.\<close>

definition initial_namespace :: "optionals \<Rightarrow> namespace" where
  "initial_namespace opts =
     fold (\<lambda>(option_string, action) ns.
             case action of HelpAction \<Rightarrow> ns | StoreAction os d r \<Rightarrow> ns(d \<mapsto> PyNone))
          opts Map.empty"

text \<open>The names of the required options that were not seen.\<close>

definition required_actions :: "optionals \<Rightarrow> action list \<Rightarrow> string list" where
  "required_actions opts seen =
     concat (map (\<lambda>(option_string, action).
       case action of
         HelpAction \<Rightarrow> []
       | StoreAction os d r \<Rightarrow> if r \<and> action \<notin> set seen then [os] else []) opts)"

definition parse_known_args ::
  "optionals \<Rightarrow> (string list \<Rightarrow> pstate \<Rightarrow> sys_exit + pstate) option \<Rightarrow> namespace \<Rightarrow> string list
     \<Rightarrow> sys_exit + namespace \<times> string list" where
  "parse_known_args opts positional ns arg_strings =
     and_then (classify opts arg_strings) (\<lambda>cs.
     and_then (consume opts positional
                 \<lparr>namespace = ns, seen_actions = [], extras = [], unrecognized = []\<rparr> cs) (\<lambda>st.
       if required_actions opts (seen_actions st) \<noteq> []
       then Inl (ErrorExit (RequiredMissing (required_actions opts (seen_actions st))))
       else Inr (namespace st, extras st @ unrecognized st)))"

text \<open>
  \<^verbatim>\<open>_SubParsersAction.__call__\<close>, after the check of the name against the choices:
  the name is stored under \<^verbatim>\<open>dest='action'\<close>, the sub-command's parser parses the
  rest into a namespace of its own, whose attributes are copied over, and what it
  did not recognise is kept for the top level.
\<close>

definition subparsers_action ::
  "(string \<times> optionals) list \<Rightarrow> string list \<Rightarrow> pstate \<Rightarrow> sys_exit + pstate" where
  "subparsers_action name_parser_map vals st =
     (case vals of
        [] \<Rightarrow> Inr st
      | parser_name # arg_strings \<Rightarrow>
          (case map_of name_parser_map parser_name of
             None \<Rightarrow> Inl (ErrorExit (InvalidChoice parser_name))
           | Some parser \<Rightarrow>
               and_then (parse_known_args parser None (initial_namespace parser) arg_strings)
                 (\<lambda>(subnamespace, arg_strings').
                    Inr (st\<lparr>namespace := (namespace st)(''action'' \<mapsto> PyStr parser_name) ++ subnamespace,
                            unrecognized := unrecognized st @ arg_strings'\<rparr>))))"

text \<open>
  \<^verbatim>\<open>parse()\<close>: the top-level parser has the help option and the sub-command
  positional, added by \<^verbatim>\<open>add_subparsers(dest='action')\<close> and therefore not required;
  \<^verbatim>\<open>parse_args\<close> rejects anything left over.
\<close>

definition parse :: "string list \<Rightarrow> sys_exit + namespace" where
  "parse argv =
     and_then (parse_known_args ArgumentParser (Some (subparsers_action sub_parsers))
                 ((initial_namespace ArgumentParser)(''action'' \<mapsto> PyNone)) argv)
       (\<lambda>(args, extra).
          if extra \<noteq> [] then Inl (ErrorExit (UnrecognizedArguments extra)) else Inr args)"

section \<open>The program\<close>

definition main :: "world \<Rightarrow> string list \<Rightarrow> launches \<Rightarrow> launches \<times> (error + pyval) option" where
  "main w argv ls =
     (case parse argv of
        Inl e \<Rightarrow> (ls, Some (Inl (SystemExit e)))
      | Inr args \<Rightarrow>
          (case getattr args ''action'' of
             Inl e \<Rightarrow> (ls, Some (Inl e))
           | Inr act \<Rightarrow>
               if act = PyStr ''local_train'' then deploy_local_train w args ls
               else if act = PyStr ''train'' then deploy_trainer w args ls
               else if act = PyStr ''local_batch_train'' then deploy_local_batch_train w args ls
               else if act = PyStr ''batch_train'' then deploy_batch_trainer w args ls
               else if act = PyStr ''predict'' then deploy_predictor w args ls
               else (ls, Some (Inl (ValueError
                      (''Unknown action '' @ [CHR 0x22] @ format_value act @ [CHR 0x22]))))))"

text \<open>
  \<^verbatim>\<open>if __name__ == '__main__': main()\<close>. The interpreter exits with status 0 when
  \<^verbatim>\<open>main\<close> returns, with the code of a \<^verbatim>\<open>SystemExit\<close>, and with status 1 after any
  other uncaught exception; it does not exit while \<^verbatim>\<open>main\<close> does not return.
\<close>

fun interpreter_exit :: "(error + pyval) option \<Rightarrow> int option" where
  "interpreter_exit None = None"
| "interpreter_exit (Some (Inr v)) = Some 0"
| "interpreter_exit (Some (Inl (SystemExit e))) = Some (exit_code e)"
| "interpreter_exit (Some (Inl e)) = Some 1"

record run_report =
  launched :: launches
  exit_status :: "int option"

definition program :: "world \<Rightarrow> string list \<Rightarrow> run_report" where
  "program w argv =
     (case main w argv [] of
        (ls, r) \<Rightarrow> \<lparr>launched = ls, exit_status = interpreter_exit r\<rparr>)"

text \<open>A world in which every command starts and exits with status 0.\<close>

definition quiet_world :: world where
  "quiet_world = (\<lambda>command. Exited 0)"

text \<open>A world in which every command starts and exits with status 3.\<close>

definition failing_world :: world where
  "failing_world = (\<lambda>command. Exited 3)"

text \<open>An argument set that has every option of every action, for examples.\<close>

definition all_options :: namespace where
  "all_options =
     [''name'' \<mapsto> PyStr ''job1'', ''bucket'' \<mapsto> PyStr ''b1'', ''path'' \<mapsto> PyStr ''p1'',
      ''project'' \<mapsto> PyStr ''proj'', ''dataset_table'' \<mapsto> PyStr ''ds.tbl'',
      ''version'' \<mapsto> PyStr ''v2'', ''model'' \<mapsto> PyStr ''m'',
      ''origin'' \<mapsto> PyStr ''gs://b1/model'', ''package_path'' \<mapsto> PyStr ''gs://b1/pkg.tar.gz'']"

section \<open>Naming an option on the command line\<close>

text \<open>
  An argument names an option when the part before any \<^verbatim>\<open>=\<close> is the option string
  or an abbreviation of it that goes beyond the two dashes. An option is absent from
  an argument list when no argument names it.
\<close>

definition names_option :: "string \<Rightarrow> string \<Rightarrow> bool" where
  "names_option option_string arg \<longleftrightarrow>
     2 < length (fst (partition_eq arg)) \<and> prefix (fst (partition_eq arg)) option_string"

text \<open>
  An argument asks for help when it starts with \<^verbatim>\<open>-h\<close>, or is \<^verbatim>\<open>--help\<close> or an
  abbreviation of it.
\<close>

definition asks_for_help :: "string \<Rightarrow> bool" where
  "asks_for_help arg \<longleftrightarrow>
     prefix ''-h'' arg \<or> (CHR ''='' \<notin> set arg \<and> 2 < length arg \<and> prefix arg ''--help'')"

text \<open>
  What the proofs need to know of a parser's options: the help option is there, under
  its two names, and every storing option is a long option without \<^verbatim>\<open>=\<close> in its name.
\<close>

fun well_formed_entry :: "string \<times> action \<Rightarrow> bool" where
  "well_formed_entry (k, HelpAction) = (k = ''-h'' \<or> k = ''--help'')"
| "well_formed_entry (k, StoreAction os d r) =
     (k = os \<and> prefix ''--'' os \<and> 2 < length os \<and> CHR ''='' \<notin> set os)"

definition well_formed :: "optionals \<Rightarrow> bool" where
  "well_formed opts \<longleftrightarrow> (''--help'', HelpAction) \<in> set opts \<and> list_all well_formed_entry opts"


section \<open>Basic facts\<close>

lemma getattr_Some: "args k = Some v \<Longrightarrow> getattr args k = Inr v"
  by (simp add: getattr_def)

lemma and_then_Inr: "and_then (Inr v) f = f v"
  by (simp add: and_then_def)

lemma and_then_Inl: "and_then (Inl e) f = Inl e"
  by (simp add: and_then_def)


lemma and_then_eq_Inr: "and_then r f = Inr y \<longleftrightarrow> (\<exists>v. r = Inr v \<and> f v = Inr y)"
  by (cases r) (simp_all add: and_then_def)

lemma and_then_eq_Inl: "and_then r f = Inl e \<longleftrightarrow> r = Inl e \<or> (\<exists>v. r = Inr v \<and> f v = Inl e)"
  by (cases r) (simp_all add: and_then_def)


section \<open>The command lists\<close>

text \<open>
  Claim C1. For the train action the command list is a function of the three option
  values alone: whatever the strings for name, bucket and path, the list is the fixed
  template with the job name at index 6, \<^verbatim>\<open>gs://\<close> and the bucket at index 12, the
  tokens \<^verbatim>\<open>--python-version 3.7 --runtime-version 1.15\<close> at indices 13 to 16, and
  \<^verbatim>\<open>--bucket=\<close> and \<^verbatim>\<open>--path=\<close> with their values after the \<^verbatim>\<open>--\<close> at index 17.
  The witness is the example of the specification: bucket \<^verbatim>\<open>b1\<close>, path \<^verbatim>\<open>p1\<close>,
  name \<^verbatim>\<open>job1\<close>.
\<close>

theorem deploy_trainer_command_tokens:
  assumes "args ''name'' = Some (PyStr name)"
    and "args ''bucket'' = Some (PyStr bucket)"
    and "args ''path'' = Some (PyStr path)"
  shows "deploy_trainer_command args = Inr
     [PyStr ''powershell.exe'',
      PyStr ''gcloud'', PyStr ''ai-platform'',
      PyStr ''jobs'', PyStr ''submit'', PyStr ''training'',
      PyStr name,
      PyStr ''--package-path'', PyStr ''modeling'',
      PyStr ''--module-name'', PyStr ''modeling.trainer.model'',
      PyStr ''--staging-bucket'', PyStr (''gs://'' @ bucket),
      PyStr ''--python-version'', PyStr ''3.7'',
      PyStr ''--runtime-version'', PyStr ''1.15'',
      PyStr ''--'',
      PyStr (''--bucket='' @ bucket),
      PyStr (''--path='' @ path)]"
  using assms by (simp add: deploy_trainer_command_def getattr_Some and_then_Inr)

theorem deploy_trainer_command_tokens_witness:
  "deploy_trainer_command
     [''name'' \<mapsto> PyStr ''job1'', ''bucket'' \<mapsto> PyStr ''b1'', ''path'' \<mapsto> PyStr ''p1''] = Inr
     [PyStr ''powershell.exe'',
      PyStr ''gcloud'', PyStr ''ai-platform'',
      PyStr ''jobs'', PyStr ''submit'', PyStr ''training'',
      PyStr ''job1'',
      PyStr ''--package-path'', PyStr ''modeling'',
      PyStr ''--module-name'', PyStr ''modeling.trainer.model'',
      PyStr ''--staging-bucket'', PyStr ''gs://b1'',
      PyStr ''--python-version'', PyStr ''3.7'',
      PyStr ''--runtime-version'', PyStr ''1.15'',
      PyStr ''--'',
      PyStr ''--bucket=b1'',
      PyStr ''--path=p1'']"
  using deploy_trainer_command_tokens
    [of "[''name'' \<mapsto> PyStr ''job1'', ''bucket'' \<mapsto> PyStr ''b1'', ''path'' \<mapsto> PyStr ''p1'']"
        "''job1''" "''b1''" "''p1''"]
  by simp

text \<open>
  Claim C5. The local_train action uses no value of its argument set: for every
  argument set the command list is the same constant list, with the module
  \<^verbatim>\<open>modeling.trainer.model\<close>, the output directory \<^verbatim>\<open>local-training-output\<close> and the
  placeholders \<^verbatim>\<open>--run_location=local\<close> and \<^verbatim>\<open>--bucket=None\<close>.
\<close>

theorem deploy_local_train_command_fixed:
  "deploy_local_train_command args = Inr
     [PyStr ''powershell.exe'',
      PyStr ''gcloud'', PyStr ''ai-platform'', PyStr ''local'', PyStr ''train'',
      PyStr ''--package-path'', PyStr ''modeling'',
      PyStr ''--module-name'', PyStr ''modeling.trainer.model'',
      PyStr ''--job-dir'', PyStr ''local-training-output'',
      PyStr ''--'',
      PyStr ''--run_location=local'',
      PyStr ''--bucket=None'']
   \<and> deploy_local_train_command args = deploy_local_train_command args'"
  by (simp add: deploy_local_train_command_def)

theorem deploy_local_train_command_fixed_witness:
  "deploy_local_train_command all_options = deploy_local_train_command Map.empty"
  using deploy_local_train_command_fixed[of all_options Map.empty] by (rule conjunct2)

text \<open>
  Claim C6. For the predict action, whatever the strings for version, model, origin and
  package path, the command list creates a model version with exactly these four values
  interpolated, the runtime version \<^verbatim>\<open>1.15\<close>, the Python version \<^verbatim>\<open>3.7\<close> and the
  prediction class \<^verbatim>\<open>modeling.predictor.predictor.Predictor\<close>.
\<close>

theorem deploy_predictor_command_tokens:
  assumes "args ''version'' = Some (PyStr version)"
    and "args ''model'' = Some (PyStr model)"
    and "args ''origin'' = Some (PyStr origin)"
    and "args ''package_path'' = Some (PyStr package_path)"
  shows "deploy_predictor_command args = Inr
     [PyStr ''powershell.exe'',
      PyStr ''gcloud'', PyStr ''beta'', PyStr ''ai-platform'',
      PyStr ''versions'', PyStr ''create'', PyStr version,
      PyStr ''--model'', PyStr model,
      PyStr ''--runtime-version'', PyStr ''1.15'',
      PyStr ''--python-version'', PyStr ''3.7'',
      PyStr ''--origin'', PyStr origin,
      PyStr ''--package-uris'', PyStr package_path,
      PyStr ''--prediction-class'', PyStr ''modeling.predictor.predictor.Predictor'',
      PyStr ''--verbosity=debug'']"
  using assms by (simp add: deploy_predictor_command_def getattr_Some and_then_Inr)

theorem deploy_predictor_command_tokens_witness:
  "deploy_predictor_command
     [''version'' \<mapsto> PyStr ''v2'', ''model'' \<mapsto> PyStr ''m'', ''origin'' \<mapsto> PyStr ''gs://b/o'',
      ''package_path'' \<mapsto> PyStr ''gs://b/pkg.tar.gz''] = Inr
     [PyStr ''powershell.exe'',
      PyStr ''gcloud'', PyStr ''beta'', PyStr ''ai-platform'',
      PyStr ''versions'', PyStr ''create'', PyStr ''v2'',
      PyStr ''--model'', PyStr ''m'',
      PyStr ''--runtime-version'', PyStr ''1.15'',
      PyStr ''--python-version'', PyStr ''3.7'',
      PyStr ''--origin'', PyStr ''gs://b/o'',
      PyStr ''--package-uris'', PyStr ''gs://b/pkg.tar.gz'',
      PyStr ''--prediction-class'', PyStr ''modeling.predictor.predictor.Predictor'',
      PyStr ''--verbosity=debug'']"
  using deploy_predictor_command_tokens
    [of "[''version'' \<mapsto> PyStr ''v2'', ''model'' \<mapsto> PyStr ''m'', ''origin'' \<mapsto> PyStr ''gs://b/o'',
          ''package_path'' \<mapsto> PyStr ''gs://b/pkg.tar.gz'']"
        "''v2''" "''m''" "''gs://b/o''" "''gs://b/pkg.tar.gz''"]
  by simp

text \<open>
  Claim C7. For the batch_train action, whatever the strings for name, bucket, project
  and dataset table, the command list has the job name, \<^verbatim>\<open>gs://\<close> and the bucket as
  staging bucket, the module \<^verbatim>\<open>modeling.trainer.batch_model\<close>, and project and dataset
  table after the \<^verbatim>\<open>--\<close>. Up to and including the \<^verbatim>\<open>--\<close> it is the list of the train
  action for the same argument set, with the module name replaced.
\<close>

theorem deploy_batch_trainer_command_tokens:
  assumes "args ''name'' = Some (PyStr name)"
    and "args ''bucket'' = Some (PyStr bucket)"
    and "args ''project'' = Some (PyStr project)"
    and "args ''dataset_table'' = Some (PyStr dataset_table)"
  shows "deploy_batch_trainer_command args = Inr
     [PyStr ''powershell.exe'',
      PyStr ''gcloud'', PyStr ''ai-platform'',
      PyStr ''jobs'', PyStr ''submit'', PyStr ''training'',
      PyStr name,
      PyStr ''--package-path'', PyStr ''modeling'',
      PyStr ''--module-name'', PyStr ''modeling.trainer.batch_model'',
      PyStr ''--staging-bucket'', PyStr (''gs://'' @ bucket),
      PyStr ''--python-version'', PyStr ''3.7'',
      PyStr ''--runtime-version'', PyStr ''1.15'',
      PyStr ''--'',
      PyStr (''--bucket='' @ bucket),
      PyStr (''--project='' @ project),
      PyStr (''--dataset_table='' @ dataset_table)]
    \<and> (\<forall>train batch.
          deploy_trainer_command args = Inr train \<and> deploy_batch_trainer_command args = Inr batch
          \<longrightarrow> length train = 20 \<and> take 18 batch = (take 18 train)[10 := PyStr ''modeling.trainer.batch_model''])"
  using assms
  by (auto simp add: deploy_batch_trainer_command_def deploy_trainer_command_def getattr_Some
        and_then_Inr and_then_eq_Inr)

theorem deploy_batch_trainer_command_tokens_witness:
  "\<exists>train. deploy_trainer_command all_options = Inr train
     \<and> length train = 20
     \<and> deploy_batch_trainer_command all_options = Inr
         [PyStr ''powershell.exe'',
          PyStr ''gcloud'', PyStr ''ai-platform'',
          PyStr ''jobs'', PyStr ''submit'', PyStr ''training'',
          PyStr ''job1'',
          PyStr ''--package-path'', PyStr ''modeling'',
          PyStr ''--module-name'', PyStr ''modeling.trainer.batch_model'',
          PyStr ''--staging-bucket'', PyStr ''gs://b1'',
          PyStr ''--python-version'', PyStr ''3.7'',
          PyStr ''--runtime-version'', PyStr ''1.15'',
          PyStr ''--'',
          PyStr ''--bucket=b1'',
          PyStr ''--project=proj'',
          PyStr ''--dataset_table=ds.tbl'']
     \<and> [PyStr ''powershell.exe'',
          PyStr ''gcloud'', PyStr ''ai-platform'',
          PyStr ''jobs'', PyStr ''submit'', PyStr ''training'',
          PyStr ''job1'',
          PyStr ''--package-path'', PyStr ''modeling'',
          PyStr ''--module-name'', PyStr ''modeling.trainer.batch_model'',
          PyStr ''--staging-bucket'', PyStr ''gs://b1'',
          PyStr ''--python-version'', PyStr ''3.7'',
          PyStr ''--runtime-version'', PyStr ''1.15'',
          PyStr ''--''] = (take 18 train)[10 := PyStr ''modeling.trainer.batch_model'']"
proof -
  have a: "all_options ''name'' = Some (PyStr ''job1'')" "all_options ''bucket'' = Some (PyStr ''b1'')"
    "all_options ''project'' = Some (PyStr ''proj'')"
    "all_options ''dataset_table'' = Some (PyStr ''ds.tbl'')"
    by (simp_all add: all_options_def)
  note inst = deploy_batch_trainer_command_tokens[OF a]
  note batch = inst[THEN conjunct1]
  obtain train where t: "deploy_trainer_command all_options = Inr train"
    by (simp add: deploy_trainer_command_def all_options_def getattr_def and_then_def)
  from inst[THEN conjunct2, THEN spec, THEN spec, THEN mp, OF conjI, OF t batch]
  have "length train = 20" and "take 18
         [PyStr ''powershell.exe'',
          PyStr ''gcloud'', PyStr ''ai-platform'',
          PyStr ''jobs'', PyStr ''submit'', PyStr ''training'',
          PyStr ''job1'',
          PyStr ''--package-path'', PyStr ''modeling'',
          PyStr ''--module-name'', PyStr ''modeling.trainer.batch_model'',
          PyStr ''--staging-bucket'', PyStr (''gs://'' @ ''b1''),
          PyStr ''--python-version'', PyStr ''3.7'',
          PyStr ''--runtime-version'', PyStr ''1.15'',
          PyStr ''--'',
          PyStr (''--bucket='' @ ''b1''),
          PyStr (''--project='' @ ''proj''),
          PyStr (''--dataset_table='' @ ''ds.tbl'')]
       = (take 18 train)[10 := PyStr ''modeling.trainer.batch_model'']"
    by simp_all
  with t batch show ?thesis by simp
qed

text \<open>
  Claim C10. Whenever the batch_train action builds its command list, the arguments
  after the \<^verbatim>\<open>--\<close> at index 17 are \<^verbatim>\<open>--bucket=\<close>, \<^verbatim>\<open>--project=\<close> and
  \<^verbatim>\<open>--dataset_table=\<close> with the values of the three options: the bucket is forwarded
  to the module as well as used in the staging bucket at index 12.
\<close>

theorem deploy_batch_trainer_forwards_bucket:
  assumes "deploy_batch_trainer_command args = Inr command"
  shows "\<exists>bucket project dataset_table.
           args ''bucket'' = Some bucket \<and> args ''project'' = Some project
         \<and> args ''dataset_table'' = Some dataset_table
         \<and> command ! 12 = PyStr (''gs://'' @ format_value bucket)
         \<and> drop 17 command =
             [PyStr ''--'',
              PyStr (''--bucket='' @ format_value bucket),
              PyStr (''--project='' @ format_value project),
              PyStr (''--dataset_table='' @ format_value dataset_table)]"
  using assms
  by (auto simp add: deploy_batch_trainer_command_def and_then_eq_Inr getattr_def
        split: option.splits)

theorem deploy_batch_trainer_forwards_bucket_witness:
  "\<exists>command. deploy_batch_trainer_command all_options = Inr command
     \<and> command ! 12 = PyStr ''gs://b1''
     \<and> drop 17 command =
         [PyStr ''--'', PyStr ''--bucket=b1'', PyStr ''--project=proj'',
          PyStr ''--dataset_table=ds.tbl'']"
proof -
  obtain command where c: "deploy_batch_trainer_command all_options = Inr command"
    by (simp add: deploy_batch_trainer_command_def all_options_def getattr_def and_then_def)
  have a: "all_options ''bucket'' = Some (PyStr ''b1'')"
    "all_options ''project'' = Some (PyStr ''proj'')"
    "all_options ''dataset_table'' = Some (PyStr ''ds.tbl'')"
    by (simp_all add: all_options_def)
  from deploy_batch_trainer_forwards_bucket[OF c] a
  have "command ! 12 = PyStr ''gs://b1''"
    and "drop 17 command =
         [PyStr ''--'', PyStr ''--bucket=b1'', PyStr ''--project=proj'',
          PyStr ''--dataset_table=ds.tbl'']"
    by auto
  with c show ?thesis by simp
qed

text \<open>
  Claim C9. Every command list that one of the five actions builds, for any argument
  set, begins with the launcher \<^verbatim>\<open>powershell.exe\<close>, then the tool \<^verbatim>\<open>gcloud\<close> and the
  fixed sub-command tokens of the action.
\<close>

theorem commands_start_with_launcher_and_tool:
  "(deploy_local_train_command args = Inr command \<longrightarrow>
      take 5 command = [PyStr ''powershell.exe'', PyStr ''gcloud'', PyStr ''ai-platform'',
                        PyStr ''local'', PyStr ''train''])
 \<and> (deploy_trainer_command args = Inr command \<longrightarrow>
      take 6 command = [PyStr ''powershell.exe'', PyStr ''gcloud'', PyStr ''ai-platform'',
                        PyStr ''jobs'', PyStr ''submit'', PyStr ''training''])
 \<and> (deploy_local_batch_train_command args = Inr command \<longrightarrow>
      take 5 command = [PyStr ''powershell.exe'', PyStr ''gcloud'', PyStr ''ai-platform'',
                        PyStr ''local'', PyStr ''train''])
 \<and> (deploy_batch_trainer_command args = Inr command \<longrightarrow>
      take 6 command = [PyStr ''powershell.exe'', PyStr ''gcloud'', PyStr ''ai-platform'',
                        PyStr ''jobs'', PyStr ''submit'', PyStr ''training''])
 \<and> (deploy_predictor_command args = Inr command \<longrightarrow>
      take 6 command = [PyStr ''powershell.exe'', PyStr ''gcloud'', PyStr ''beta'',
                        PyStr ''ai-platform'', PyStr ''versions'', PyStr ''create''])"
  by (auto simp add: deploy_local_train_command_def deploy_trainer_command_def
        deploy_local_batch_train_command_def deploy_batch_trainer_command_def
        deploy_predictor_command_def and_then_eq_Inr)

theorem commands_start_with_launcher_and_tool_witness:
  "\<exists>c1 c2 c3 c4 c5.
      deploy_local_train_command all_options = Inr c1
    \<and> take 5 c1 = [PyStr ''powershell.exe'', PyStr ''gcloud'', PyStr ''ai-platform'',
                   PyStr ''local'', PyStr ''train'']
    \<and> deploy_trainer_command all_options = Inr c2
    \<and> take 6 c2 = [PyStr ''powershell.exe'', PyStr ''gcloud'', PyStr ''ai-platform'',
                   PyStr ''jobs'', PyStr ''submit'', PyStr ''training'']
    \<and> deploy_local_batch_train_command all_options = Inr c3
    \<and> take 5 c3 = [PyStr ''powershell.exe'', PyStr ''gcloud'', PyStr ''ai-platform'',
                   PyStr ''local'', PyStr ''train'']
    \<and> deploy_batch_trainer_command all_options = Inr c4
    \<and> take 6 c4 = [PyStr ''powershell.exe'', PyStr ''gcloud'', PyStr ''ai-platform'',
                   PyStr ''jobs'', PyStr ''submit'', PyStr ''training'']
    \<and> deploy_predictor_command all_options = Inr c5
    \<and> take 6 c5 = [PyStr ''powershell.exe'', PyStr ''gcloud'', PyStr ''beta'',
                   PyStr ''ai-platform'', PyStr ''versions'', PyStr ''create'']"
proof -
  obtain c1 where c1: "deploy_local_train_command all_options = Inr c1"
    by (simp add: deploy_local_train_command_def)
  obtain c2 where c2: "deploy_trainer_command all_options = Inr c2"
    by (simp add: deploy_trainer_command_def all_options_def getattr_def and_then_def)
  obtain c3 where c3: "deploy_local_batch_train_command all_options = Inr c3"
    by (simp add: deploy_local_batch_train_command_def all_options_def getattr_def and_then_def)
  obtain c4 where c4: "deploy_batch_trainer_command all_options = Inr c4"
    by (simp add: deploy_batch_trainer_command_def all_options_def getattr_def and_then_def)
  obtain c5 where c5: "deploy_predictor_command all_options = Inr c5"
    by (simp add: deploy_predictor_command_def all_options_def getattr_def and_then_def)
  note k1 = commands_start_with_launcher_and_tool
              [of all_options c1, THEN conjunct1, THEN mp, OF c1]
  note k2 = commands_start_with_launcher_and_tool
              [of all_options c2, THEN conjunct2, THEN conjunct1, THEN mp, OF c2]
  note k3 = commands_start_with_launcher_and_tool
              [of all_options c3, THEN conjunct2, THEN conjunct2, THEN conjunct1, THEN mp, OF c3]
  note k4 = commands_start_with_launcher_and_tool
              [of all_options c4, THEN conjunct2, THEN conjunct2, THEN conjunct2, THEN conjunct1,
               THEN mp, OF c4]
  note k5 = commands_start_with_launcher_and_tool
              [of all_options c5, THEN conjunct2, THEN conjunct2, THEN conjunct2, THEN conjunct2,
               THEN mp, OF c5]
  show ?thesis
    by (intro exI[of _ c1] exI[of _ c2] exI[of _ c3] exI[of _ c4] exI[of _ c5] conjI
          c1 c2 c3 c4 c5 k1 k2 k3 k4 k5)
qed

text \<open>
  Claim C8. Building a command list is a pure function of the option values the action
  uses: it takes the argument set and nothing else (no world, no list of launched
  commands), and two argument sets that agree on the options of an action give the
  same result, whatever else they hold.
\<close>

theorem command_depends_only_on_its_options:
  "deploy_local_train_command args = deploy_local_train_command args'
 \<and> ((\<forall>k \<in> {''name'', ''bucket'', ''path''}. args k = args' k) \<longrightarrow>
      deploy_trainer_command args = deploy_trainer_command args')
 \<and> ((\<forall>k \<in> {''project'', ''dataset_table''}. args k = args' k) \<longrightarrow>
      deploy_local_batch_train_command args = deploy_local_batch_train_command args')
 \<and> ((\<forall>k \<in> {''name'', ''bucket'', ''project'', ''dataset_table''}. args k = args' k) \<longrightarrow>
      deploy_batch_trainer_command args = deploy_batch_trainer_command args')
 \<and> ((\<forall>k \<in> {''version'', ''model'', ''origin'', ''package_path''}. args k = args' k) \<longrightarrow>
      deploy_predictor_command args = deploy_predictor_command args')"
  by (simp add: deploy_local_train_command_def deploy_trainer_command_def
        deploy_local_batch_train_command_def deploy_batch_trainer_command_def
        deploy_predictor_command_def getattr_def)

theorem command_depends_only_on_its_options_witness:
  "deploy_local_train_command all_options
     = deploy_local_train_command (all_options(''action'' \<mapsto> PyStr ''train''))
   \<and> deploy_trainer_command all_options
     = deploy_trainer_command (all_options(''action'' \<mapsto> PyStr ''train''))
   \<and> deploy_local_batch_train_command all_options
     = deploy_local_batch_train_command (all_options(''action'' \<mapsto> PyStr ''train''))
   \<and> deploy_batch_trainer_command all_options
     = deploy_batch_trainer_command (all_options(''action'' \<mapsto> PyStr ''train''))
   \<and> deploy_predictor_command all_options
     = deploy_predictor_command (all_options(''action'' \<mapsto> PyStr ''train''))"
proof -
  have h1: "\<forall>k \<in> {''name'', ''bucket'', ''path''}.
          all_options k = (all_options(''action'' \<mapsto> PyStr ''train'')) k"
    and h2: "\<forall>k \<in> {''project'', ''dataset_table''}.
          all_options k = (all_options(''action'' \<mapsto> PyStr ''train'')) k"
    and h3: "\<forall>k \<in> {''name'', ''bucket'', ''project'', ''dataset_table''}.
          all_options k = (all_options(''action'' \<mapsto> PyStr ''train'')) k"
    and h4: "\<forall>k \<in> {''version'', ''model'', ''origin'', ''package_path''}.
          all_options k = (all_options(''action'' \<mapsto> PyStr ''train'')) k"
    by simp_all
  note inst = command_depends_only_on_its_options
               [of all_options "all_options(''action'' \<mapsto> PyStr ''train'')"]
  show ?thesis
    by (intro conjI inst[THEN conjunct1]
          inst[THEN conjunct2, THEN conjunct1, THEN mp, OF h1]
          inst[THEN conjunct2, THEN conjunct2, THEN conjunct1, THEN mp, OF h2]
          inst[THEN conjunct2, THEN conjunct2, THEN conjunct2, THEN conjunct1, THEN mp, OF h3]
          inst[THEN conjunct2, THEN conjunct2, THEN conjunct2, THEN conjunct2, THEN mp, OF h4])
qed

section \<open>Exit status of the child and of the program\<close>

lemma run_command_exited:
  assumes "as_strings command = Some cmd" and "w cmd = Exited rc"
  shows "run_command w (Inr command) ls =
           (ls @ [cmd], Some (if rc = 0 then Inr PyNone else Inl (CalledProcessError rc cmd)))"
  using assms by (simp add: run_command_def subprocess_run_def check_returncode_def)

lemma run_command_launched:
  assumes "run_command w built ls = (ls @ [cmd], r)" and "w cmd = Exited rc"
  shows "r = Some (if rc = 0 then Inr PyNone else Inl (CalledProcessError rc cmd))"
  using assms
  by (auto simp add: run_command_def subprocess_run_def check_returncode_def
        split: sum.splits option.splits child.splits)

text \<open>
  Claim C4. When the child process of an action exits with status \<open>rc\<close>, the action's
  function returns \<^verbatim>\<open>None\<close> if \<open>rc\<close> is 0 and raises \<^verbatim>\<open>CalledProcessError\<close> otherwise,
  for each of the five actions; \<^verbatim>\<open>main\<close> passes this on unchanged, so the program
  exits with status 0 in the first case and with status 1, after the uncaught
  exception, in the second.
\<close>

theorem dispatch_raises_iff_child_fails:
  assumes "as_strings command = Some cmd" and "w cmd = Exited rc"
  shows "(deploy_local_train_command args = Inr command \<longrightarrow>
            deploy_local_train w args ls =
              (ls @ [cmd], Some (if rc = 0 then Inr PyNone else Inl (CalledProcessError rc cmd))))
       \<and> (deploy_trainer_command args = Inr command \<longrightarrow>
            deploy_trainer w args ls =
              (ls @ [cmd], Some (if rc = 0 then Inr PyNone else Inl (CalledProcessError rc cmd))))
       \<and> (deploy_local_batch_train_command args = Inr command \<longrightarrow>
            deploy_local_batch_train w args ls =
              (ls @ [cmd], Some (if rc = 0 then Inr PyNone else Inl (CalledProcessError rc cmd))))
       \<and> (deploy_batch_trainer_command args = Inr command \<longrightarrow>
            deploy_batch_trainer w args ls =
              (ls @ [cmd], Some (if rc = 0 then Inr PyNone else Inl (CalledProcessError rc cmd))))
       \<and> (deploy_predictor_command args = Inr command \<longrightarrow>
            deploy_predictor w args ls =
              (ls @ [cmd], Some (if rc = 0 then Inr PyNone else Inl (CalledProcessError rc cmd))))
       \<and> (launched (program w argv) = [cmd] \<longrightarrow>
            snd (main w argv []) = Some (if rc = 0 then Inr PyNone else Inl (CalledProcessError rc cmd))
          \<and> exit_status (program w argv) = Some (if rc = 0 then 0 else 1))"
proof -
  have prog: "snd (main w argv []) = Some (if rc = 0 then Inr PyNone else Inl (CalledProcessError rc cmd))
          \<and> exit_status (program w argv) = Some (if rc = 0 then 0 else 1)"
    if l: "launched (program w argv) = [cmd]"
  proof -
    obtain ls r where m: "main w argv [] = (ls, r)" by (cases "main w argv []")
    with l have ls: "ls = [] @ [cmd]" by (simp add: program_def)
    have "\<exists>built. run_command w built [] = ([] @ [cmd], r)"
    proof (cases "parse argv")
      case (Inl e)
      with m ls show ?thesis by (simp add: main_def)
    next
      case (Inr ns)
      show ?thesis
      proof (cases "getattr ns ''action''")
        case (Inl e)
        with Inr m ls show ?thesis by (simp add: main_def)
      next
        case act: (Inr act)
        with Inr m ls show ?thesis
          by (auto simp add: main_def deploy_local_train_def deploy_trainer_def
                deploy_local_batch_train_def deploy_batch_trainer_def deploy_predictor_def
                split: if_splits)
      qed
    qed
    then obtain built where "run_command w built [] = ([] @ [cmd], r)" by blast
    from run_command_launched[of w built "[]" cmd r rc, OF this assms(2)] m show ?thesis
      by (simp add: program_def)
  qed
  from run_command_exited[of command cmd w rc ls, OF assms] prog show ?thesis
    by (simp add: deploy_local_train_def deploy_trainer_def deploy_local_batch_train_def
          deploy_batch_trainer_def deploy_predictor_def)
qed

theorem dispatch_raises_iff_child_fails_witness:
  "(\<exists>cmd. deploy_local_train failing_world all_options []
            = ([cmd], Some (Inl (CalledProcessError 3 cmd))))
 \<and> (\<exists>cmd. deploy_trainer failing_world all_options []
            = ([cmd], Some (Inl (CalledProcessError 3 cmd))))
 \<and> (\<exists>cmd. deploy_local_batch_train failing_world all_options []
            = ([cmd], Some (Inl (CalledProcessError 3 cmd))))
 \<and> (\<exists>cmd. deploy_batch_trainer failing_world all_options []
            = ([cmd], Some (Inl (CalledProcessError 3 cmd))))
 \<and> (\<exists>cmd. deploy_predictor failing_world all_options []
            = ([cmd], Some (Inl (CalledProcessError 3 cmd))))
 \<and> (\<exists>cmd. deploy_trainer quiet_world all_options [] = ([cmd], Some (Inr PyNone)))
 \<and> exit_status (program failing_world [''local_train'']) = Some 1
 \<and> exit_status (program quiet_world [''local_train'']) = Some 0"
proof -
  have f: "failing_world cmd = Exited 3" and q: "quiet_world cmd = Exited 0" for cmd
    by (simp_all add: failing_world_def quiet_world_def)
  obtain c1 s1 where c1: "deploy_local_train_command all_options = Inr c1" "as_strings c1 = Some s1"
    by (simp add: deploy_local_train_command_def)
  obtain c2 s2 where c2: "deploy_trainer_command all_options = Inr c2" "as_strings c2 = Some s2"
    by (simp add: deploy_trainer_command_def all_options_def getattr_def and_then_def)
  obtain c3 s3 where c3: "deploy_local_batch_train_command all_options = Inr c3" "as_strings c3 = Some s3"
    by (simp add: deploy_local_batch_train_command_def all_options_def getattr_def and_then_def)
  obtain c4 s4 where c4: "deploy_batch_trainer_command all_options = Inr c4" "as_strings c4 = Some s4"
    by (simp add: deploy_batch_trainer_command_def all_options_def getattr_def and_then_def)
  obtain c5 s5 where c5: "deploy_predictor_command all_options = Inr c5" "as_strings c5 = Some s5"
    by (simp add: deploy_predictor_command_def all_options_def getattr_def and_then_def)
  let ?cmd = "[''powershell.exe'', ''gcloud'', ''ai-platform'', ''local'', ''train'',
        ''--package-path'', ''modeling'', ''--module-name'', ''modeling.trainer.model'',
        ''--job-dir'', ''local-training-output'', ''--'', ''--run_location=local'',
        ''--bucket=None'']"
  have a: "as_strings (map PyStr ?cmd) = Some ?cmd" by simp
  have l: "launched (program failing_world [''local_train'']) = [?cmd]"
    by code_simp
  have l': "launched (program quiet_world [''local_train'']) = [?cmd]"
    by code_simp
  from dispatch_raises_iff_child_fails[where command=c1 and cmd=s1 and w=failing_world and rc=3
         and args=all_options and ls="[]", OF c1(2) f[of s1]] c1(1)
  have 1: "\<exists>cmd. deploy_local_train failing_world all_options []
            = ([cmd], Some (Inl (CalledProcessError 3 cmd)))" by auto
  from dispatch_raises_iff_child_fails[where command=c2 and cmd=s2 and w=failing_world and rc=3
         and args=all_options and ls="[]", OF c2(2) f[of s2]] c2(1)
  have 2: "\<exists>cmd. deploy_trainer failing_world all_options []
            = ([cmd], Some (Inl (CalledProcessError 3 cmd)))" by auto
  from dispatch_raises_iff_child_fails[where command=c3 and cmd=s3 and w=failing_world and rc=3
         and args=all_options and ls="[]", OF c3(2) f[of s3]] c3(1)
  have 3: "\<exists>cmd. deploy_local_batch_train failing_world all_options []
            = ([cmd], Some (Inl (CalledProcessError 3 cmd)))" by auto
  from dispatch_raises_iff_child_fails[where command=c4 and cmd=s4 and w=failing_world and rc=3
         and args=all_options and ls="[]", OF c4(2) f[of s4]] c4(1)
  have 4: "\<exists>cmd. deploy_batch_trainer failing_world all_options []
            = ([cmd], Some (Inl (CalledProcessError 3 cmd)))" by auto
  from dispatch_raises_iff_child_fails[where command=c5 and cmd=s5 and w=failing_world and rc=3
         and args=all_options and ls="[]", OF c5(2) f[of s5]] c5(1)
  have 5: "\<exists>cmd. deploy_predictor failing_world all_options []
            = ([cmd], Some (Inl (CalledProcessError 3 cmd)))" by auto
  from dispatch_raises_iff_child_fails[where command=c2 and cmd=s2 and w=quiet_world and rc=0
         and args=all_options and ls="[]", OF c2(2) q[of s2]] c2(1)
  have 6: "\<exists>cmd. deploy_trainer quiet_world all_options [] = ([cmd], Some (Inr PyNone))" by auto
  from dispatch_raises_iff_child_fails[where command="map PyStr ?cmd" and cmd="?cmd" and w=failing_world
         and rc=3 and argv="[''local_train'']", OF a f[of ?cmd]] l
  have 7: "exit_status (program failing_world [''local_train'']) = Some 1" by simp
  from dispatch_raises_iff_child_fails[where command="map PyStr ?cmd" and cmd="?cmd" and w=quiet_world
         and rc=0 and argv="[''local_train'']", OF a q[of ?cmd]] l'
  have 8: "exit_status (program quiet_world [''local_train'']) = Some 0" by simp
  from 1 2 3 4 5 6 7 8 show ?thesis by blast
qed

section \<open>What the parser accepts\<close>

lemma two_in_filter:
  assumes "x \<in> set xs" "y \<in> set xs" "x \<noteq> y" "P x" "P y"
  shows "2 \<le> length (filter P xs)"
proof -
  have "{x, y} \<subseteq> set (filter P xs)" using assms by simp
  then have "card {x, y} \<le> card (set (filter P xs))" by (intro card_mono) simp_all
  also have "\<dots> \<le> length (filter P xs)" by (rule card_length)
  finally show ?thesis using assms(3) by simp
qed

lemma fst_partition_eq: "fst (partition_eq s) = takeWhile (\<lambda>c. c \<noteq> CHR ''='') s"
  by (simp add: partition_eq_def)

lemma snd_partition_eq_None: "snd (partition_eq s) = None \<longleftrightarrow> CHR ''='' \<notin> set s"
  by (simp add: partition_eq_def)

lemma takeWhile_prefix: "prefix (takeWhile P xs) xs"
  by (metis prefixI takeWhile_dropWhile_id)

lemma get_option_tuples_long:
  "get_option_tuples opts (c0 # CHR ''-'' # cs) =
     map (\<lambda>(os, a). (a, os, map_option (\<lambda>e. ''='') (snd (partition_eq (c0 # CHR ''-'' # cs))),
                      snd (partition_eq (c0 # CHR ''-'' # cs))))
       (filter (\<lambda>(os, a). prefix (fst (partition_eq (c0 # CHR ''-'' # cs))) os) opts)"
  by (induction opts) (auto simp add: case_prod_beta Let_def)

lemma get_option_tuples_short:
  "c1 \<noteq> CHR ''-'' \<Longrightarrow> (a, os, sep, e) \<in> set (get_option_tuples opts (c0 # c1 # cs))
     \<Longrightarrow> (os, a) \<in> set opts \<and> (os = [c0, c1] \<or> prefix (c0 # c1 # cs) os)"
  by (auto split: if_splits)

lemma well_formed_entryD:
  "well_formed opts \<Longrightarrow> (k, a) \<in> set opts \<Longrightarrow> well_formed_entry (k, a)"
  by (auto simp add: well_formed_def list_all_iff)

lemma names_option_self:
  "2 < length os \<Longrightarrow> CHR ''='' \<notin> set os \<Longrightarrow> names_option os os"
proof -
  assume "2 < length os" and "CHR ''='' \<notin> set os"
  then have eq: "takeWhile (\<lambda>c. c \<noteq> CHR ''='') os = os"
    by (intro takeWhile_eq_all_conv[THEN iffD2]) auto
  show ?thesis
    unfolding names_option_def fst_partition_eq eq using \<open>2 < length os\<close> by simp
qed


lemma map_of_in: "map_of opts k = Some a \<Longrightarrow> (k, a) \<in> set opts"
  by (rule map_of_SomeD)

lemma option_prefix_long:
  "fst (partition_eq (CHR ''-'' # CHR ''-'' # cs)) = ''--'' @ takeWhile (\<lambda>c. c \<noteq> CHR ''='') cs"
  by (simp add: partition_eq_def)

lemma get_option_tuples_long_single:
  assumes "get_option_tuples opts (c0 # CHR ''-'' # cs) = [(a, os, sep, e)]"
  shows "(os, a) \<in> set opts"
    and "prefix (fst (partition_eq (c0 # CHR ''-'' # cs))) os"
    and "length (filter (\<lambda>(os, a). prefix (fst (partition_eq (c0 # CHR ''-'' # cs))) os) opts) = 1"
    and "e = snd (partition_eq (c0 # CHR ''-'' # cs))"
proof -
  let ?P = "\<lambda>(os, a). prefix (fst (partition_eq (c0 # CHR ''-'' # cs))) os"
  from assms obtain x where x: "filter ?P opts = [x]"
    and fx: "(a, os, sep, e) = (\<lambda>(os, a). (a, os, map_option (\<lambda>e. ''='') (snd (partition_eq (c0 # CHR ''-'' # cs))),
                      snd (partition_eq (c0 # CHR ''-'' # cs)))) x"
    unfolding get_option_tuples_long by (auto simp add: map_eq_Cons_conv)
  from x have "x \<in> set (filter ?P opts)" by simp
  then have "x \<in> set opts" "?P x" by simp_all
  with fx show "(os, a) \<in> set opts" "prefix (fst (partition_eq (c0 # CHR ''-'' # cs))) os"
    "e = snd (partition_eq (c0 # CHR ''-'' # cs))"
    by (auto simp add: case_prod_beta)
  from x show "length (filter ?P opts) = 1" by simp
qed

text \<open>A token that the parser resolves to a storing option names that option.\<close>

lemma parse_optional_store:
  assumes wf: "well_formed opts"
    and po: "parse_optional opts t = Inr (Opt (Some (StoreAction f d r, os, sep, e)))"
  shows "names_option f t"
proof -
  from po have t: "t \<noteq> []" "hd t = CHR ''-''"
    by (auto simp add: parse_optional_def split: if_splits)
  show ?thesis
  proof (cases "map_of opts t")
    case (Some a)
    with po t have "a = StoreAction f d r" by (simp add: parse_optional_def)
    with Some have "(t, StoreAction f d r) \<in> set opts" by (simp add: map_of_in)
    from well_formed_entryD[OF wf this] show ?thesis by (simp add: names_option_self)
  next
    case None
    note miss = this
    from po t miss have len: "length t \<noteq> 1"
      by (auto simp add: parse_optional_def split: if_splits)
    obtain op ex where pe: "partition_eq t = (op, ex)" by (cases "partition_eq t")
    show ?thesis
    proof (cases "\<exists>x a. ex = Some x \<and> map_of opts op = Some a")
      case True
      then obtain x a where x: "ex = Some x" "map_of opts op = Some a" by blast
      with po t miss len pe have "a = StoreAction f d r"
        by (simp add: parse_optional_def)
      with x have "(op, StoreAction f d r) \<in> set opts" by (simp add: map_of_in)
      from well_formed_entryD[OF wf this] have "op = f" "2 < length f" by simp_all
      with pe show ?thesis by (simp add: names_option_def)
    next
      case False
      with po t miss len pe
      have tup: "get_option_tuples opts t = [(StoreAction f d r, os, sep, e)]"
        by (auto simp add: parse_optional_def Let_def length_Suc_conv
              split: if_splits option.splits)
      from t len obtain c1 cs where teq: "t = CHR ''-'' # c1 # cs"
        by (cases t; cases "tl t") auto
      show ?thesis
      proof (cases "c1 = CHR ''-''")
        case True
        with tup teq have "get_option_tuples opts (CHR ''-'' # CHR ''-'' # cs) = [(StoreAction f d r, os, sep, e)]"
          by simp
        from get_option_tuples_long_single[OF this] teq True
        have mem: "(os, StoreAction f d r) \<in> set opts"
          and pre: "prefix (fst (partition_eq t)) os"
          and len1: "length (filter (\<lambda>(os, a). prefix (fst (partition_eq t)) os) opts) = 1"
          by simp_all
        from well_formed_entryD[OF wf mem] have osf: "os = f" "2 < length f" by simp_all
        have "2 < length (fst (partition_eq t))"
        proof (rule ccontr)
          assume "\<not> 2 < length (fst (partition_eq t))"
          with teq True have "fst (partition_eq t) = ''--''"
            by (simp add: option_prefix_long)
          moreover from wf have "(''--help'', HelpAction) \<in> set opts"
            by (simp add: well_formed_def)
          moreover from well_formed_entryD[OF wf mem] have "prefix ''--'' os" by simp
          ultimately have "2 \<le> length (filter (\<lambda>(os, a). prefix (fst (partition_eq t)) os) opts)"
            using mem by (intro two_in_filter[of "(''--help'', HelpAction)" _ "(os, StoreAction f d r)"]) auto
          with len1 show False by simp
        qed
        with pre osf show ?thesis by (simp add: names_option_def)
      next
        case False
        with tup teq have "(StoreAction f d r, os, sep, e) \<in> set (get_option_tuples opts (CHR ''-'' # c1 # cs))"
          by simp
        from get_option_tuples_short[OF False this]
        have mem: "(os, StoreAction f d r) \<in> set opts"
          and shape: "os = [CHR ''-'', c1] \<or> prefix (CHR ''-'' # c1 # cs) os" by simp_all
        from well_formed_entryD[OF wf mem] have "prefix ''--'' os" "2 < length os" by simp_all
        with shape False show ?thesis by (auto simp add: prefix_def)
      qed
    qed
  qed
qed


text \<open>A token other than \<open>--\<close> that the parser resolves to the help option asks for
  help, unless it is a long option with an explicit argument.\<close>

lemma parse_optional_help:
  assumes wf: "well_formed opts"
    and po: "parse_optional opts t = Inr (Opt (Some (HelpAction, os, sep, e)))"
    and nd: "t \<noteq> ''--''"
  shows "asks_for_help t \<or> (e \<noteq> None \<and> prefix ''--'' os)"
proof -
  from po have t: "t \<noteq> []" "hd t = CHR ''-''"
    by (auto simp add: parse_optional_def split: if_splits)
  show ?thesis
  proof (cases "map_of opts t")
    case (Some a)
    with po t have "a = HelpAction" by (simp add: parse_optional_def)
    with Some have "(t, HelpAction) \<in> set opts" by (simp add: map_of_in)
    from well_formed_entryD[OF wf this] show ?thesis by (auto simp add: asks_for_help_def)
  next
    case None
    note miss = this
    from po t miss have len: "length t \<noteq> 1"
      by (auto simp add: parse_optional_def split: if_splits)
    obtain op ex where pe: "partition_eq t = (op, ex)" by (cases "partition_eq t")
    show ?thesis
    proof (cases "\<exists>x a. ex = Some x \<and> map_of opts op = Some a")
      case True
      then obtain x a where x: "ex = Some x" "map_of opts op = Some a" by blast
      with po t miss len pe have a: "a = HelpAction" "os = op" "e = Some x"
        by (simp_all add: parse_optional_def)
      with x have "(op, HelpAction) \<in> set opts" by (simp add: map_of_in)
      from well_formed_entryD[OF wf this] have "op = ''-h'' \<or> op = ''--help''" by simp
      moreover from pe have "prefix op t"
        by (auto simp add: partition_eq_def takeWhile_prefix)
      ultimately show ?thesis using a by (auto simp add: asks_for_help_def)
    next
      case False
      with po t miss len pe
      have tup: "get_option_tuples opts t = [(HelpAction, os, sep, e)]"
        by (auto simp add: parse_optional_def Let_def length_Suc_conv
              split: if_splits option.splits)
      from t len obtain c1 cs where teq: "t = CHR ''-'' # c1 # cs"
        by (cases t; cases "tl t") auto
      show ?thesis
      proof (cases "c1 = CHR ''-''")
        case True
        with tup teq have "get_option_tuples opts (CHR ''-'' # CHR ''-'' # cs) = [(HelpAction, os, sep, e)]"
          by simp
        from get_option_tuples_long_single[OF this] teq True
        have mem: "(os, HelpAction) \<in> set opts"
          and pre: "prefix (fst (partition_eq t)) os"
          and e: "e = snd (partition_eq t)"
          by simp_all
        from well_formed_entryD[OF wf mem] have "os = ''-h'' \<or> os = ''--help''" by simp
        with pre teq True have os: "os = ''--help''"
          by (auto simp add: option_prefix_long)
        show ?thesis
        proof (cases e)
          case None
          with e have "snd (partition_eq t) = None" by simp
          then have noeq: "CHR ''='' \<notin> set t" by (rule iffD1[OF snd_partition_eq_None])
          then have "fst (partition_eq t) = t"
            unfolding fst_partition_eq by (intro takeWhile_eq_all_conv[THEN iffD2]) auto
          with pre os have "prefix t ''--help''" by simp
          moreover from teq True nd have "2 < length t" by (cases cs) auto
          ultimately show ?thesis using noeq by (simp add: asks_for_help_def)
        next
          case (Some x)
          with os show ?thesis by simp
        qed
      next
        case False
        with tup teq have "(HelpAction, os, sep, e) \<in> set (get_option_tuples opts (CHR ''-'' # c1 # cs))"
          by simp
        from get_option_tuples_short[OF False this]
        have mem: "(os, HelpAction) \<in> set opts"
          and shape: "os = [CHR ''-'', c1] \<or> prefix (CHR ''-'' # c1 # cs) os" by simp_all
        from well_formed_entryD[OF wf mem] have "os = ''-h'' \<or> os = ''--help''" by simp
        with shape False teq show ?thesis by (auto simp add: asks_for_help_def)
      qed
    qed
  qed
qed

lemma parse_optional_error: "parse_optional opts t = Inl x \<Longrightarrow> x \<noteq> HelpExit"
  by (auto simp add: parse_optional_def Let_def split: if_splits option.splits prod.splits)

lemma classify_error: "classify opts args = Inl x \<Longrightarrow> x \<noteq> HelpExit"
  by (induction args arbitrary: x)
     (auto simp add: and_then_eq_Inl split: if_splits dest: parse_optional_error)

lemma classify_strings: "classify opts args = Inr cs \<Longrightarrow> map snd cs = args"
  by (induction args arbitrary: cs)
     (auto simp add: and_then_eq_Inr comp_def split: if_splits)


lemma consume_optional_error:
  "consume_optional opts fol a os sep e = Inl x \<Longrightarrow> x \<noteq> HelpExit"
  by (induction opts fol a os sep e arbitrary: x rule: consume_optional.induct)
     (auto simp add: and_then_eq_Inl split: action.splits list.splits arg_class.splits
        if_splits option.splits)

lemma consume_optional_store:
  "consume_optional opts fol (StoreAction f d r) os sep e = Inr (steps, ex, n)
     \<Longrightarrow> \<exists>v. steps = [Store (StoreAction f d r) v]"
  by (cases e) (auto split: list.splits arg_class.splits)

lemma consume_optional_help:
  "consume_optional opts fol HelpAction os sep e = Inr (steps, ex, n)
     \<Longrightarrow> (\<exists>steps'. steps = PrintHelp # steps') \<and> (e = None \<or> \<not> prefix ''--'' os)"
  by (cases e) (auto simp add: and_then_eq_Inr split: if_splits option.splits)

lemma take_actions_store:
  "take_actions st [Store a v] = Inr st' \<Longrightarrow> set (seen_actions st') = insert a (set (seen_actions st))"
  by auto

lemma consume_seen:
  "consume opts None st cs = Inr st' \<Longrightarrow> a \<in> set (seen_actions st')
     \<Longrightarrow> a \<in> set (seen_actions st) \<or> (\<exists>os sep e t. (Opt (Some (a, os, sep, e)), t) \<in> set cs)"
proof (induction "length cs" arbitrary: cs st rule: less_induct)
  case less
  show ?case
  proof (cases cs)
    case Nil
    with less.prems show ?thesis by simp
  next
    case (Cons x rest)
    obtain c s where x: "x = (c, s)" by (cases x)
    note cs = Cons[unfolded x]
    have IH: "\<And>st1 cs1. length cs1 \<le> length rest \<Longrightarrow> consume opts None st1 cs1 = Inr st'
        \<Longrightarrow> a \<in> set (seen_actions st1) \<or> (\<exists>os sep e t. (Opt (Some (a, os, sep, e)), t) \<in> set cs1)"
      using less.hyps less.prems(2) cs by simp
    show ?thesis
    proof (cases "list_ex is_opt ((c, s) # rest)")
      case False
      with less.prems cs show ?thesis by auto
    next
      case True
      note more = this
      have skip: "consume opts None (st\<lparr>extras := extras st @ [s]\<rparr>) rest = Inr st' \<Longrightarrow> ?thesis"
        using IH[of rest "st\<lparr>extras := extras st @ [s]\<rparr>"] cs by auto
      show ?thesis
      proof (cases c)
        case Arg
        with less.prems(1) more cs show ?thesis by (intro skip) simp
      next
        case Dashes
        with less.prems(1) more cs show ?thesis by (intro skip) simp
      next
        case (Opt t)
        show ?thesis
        proof (cases t)
          case None
          with Opt less.prems(1) more cs show ?thesis by (intro skip) simp
        next
          case (Some tup)
          obtain b os sep e where tup: "tup = (b, os, sep, e)" by (cases tup)
          from less.prems(1) more Opt Some tup cs obtain steps ex n st1
            where co: "consume_optional opts rest b os sep e = Inr (steps, ex, n)"
              and ta: "take_actions (st\<lparr>extras := extras st @ ex\<rparr>) steps = Inr st1"
              and rest: "consume opts None st1 (drop n rest) = Inr st'"
            by (auto split: sum.splits)
          from IH[OF _ rest]
          have "a \<in> set (seen_actions st1) \<or> (\<exists>os sep e t. (Opt (Some (a, os, sep, e)), t) \<in> set (drop n rest))"
            by simp
          then show ?thesis
          proof
            assume a1: "a \<in> set (seen_actions st1)"
            show ?thesis
            proof (cases b)
              case HelpAction
              with co ta show ?thesis by (auto dest: consume_optional_help)
            next
              case (StoreAction f d r)
              with co obtain v where "steps = [Store b v]" by (auto dest: consume_optional_store)
              with ta a1 have "a \<in> set (seen_actions st) \<or> a = b" by auto
              with Opt Some tup cs show ?thesis by auto
            qed
          next
            assume "\<exists>os sep e t. (Opt (Some (a, os, sep, e)), t) \<in> set (drop n rest)"
            with cs show ?thesis by (auto dest: in_set_dropD)
          qed
        qed
      qed
    qed
  qed
qed

lemma consume_help:
  "consume opts None st cs = Inl HelpExit
     \<Longrightarrow> \<exists>os sep e t. (Opt (Some (HelpAction, os, sep, e)), t) \<in> set cs \<and> (e = None \<or> \<not> prefix ''--'' os)"
proof (induction "length cs" arbitrary: cs st rule: less_induct)
  case less
  show ?case
  proof (cases cs)
    case Nil
    with less.prems show ?thesis by simp
  next
    case (Cons x rest)
    obtain c s where x: "x = (c, s)" by (cases x)
    note cs = Cons[unfolded x]
    have IH: "\<And>st1 cs1. length cs1 \<le> length rest \<Longrightarrow> consume opts None st1 cs1 = Inl HelpExit
        \<Longrightarrow> \<exists>os sep e t. (Opt (Some (HelpAction, os, sep, e)), t) \<in> set cs1 \<and> (e = None \<or> \<not> prefix ''--'' os)"
      using less.hyps cs by simp
    show ?thesis
    proof (cases "list_ex is_opt ((c, s) # rest)")
      case False
      with less.prems cs show ?thesis by auto
    next
      case True
      note more = this
      have skip: "consume opts None (st\<lparr>extras := extras st @ [s]\<rparr>) rest = Inl HelpExit \<Longrightarrow> ?thesis"
        using IH[of rest "st\<lparr>extras := extras st @ [s]\<rparr>"] cs by auto
      show ?thesis
      proof (cases c)
        case Arg
        with less.prems(1) more cs show ?thesis by (intro skip) simp
      next
        case Dashes
        with less.prems(1) more cs show ?thesis by (intro skip) simp
      next
        case (Opt t)
        show ?thesis
        proof (cases t)
          case None
          with Opt less.prems(1) more cs show ?thesis by (intro skip) simp
        next
          case (Some tup)
          obtain b os sep e where tup: "tup = (b, os, sep, e)" by (cases tup)
          from less.prems(1) more Opt Some tup cs
          have unfolded: "(case consume_optional opts rest b os sep e of
                  Inl e \<Rightarrow> Inl e
                | Inr (steps, ex, n) \<Rightarrow>
                    (case take_actions (st\<lparr>extras := extras st @ ex\<rparr>) steps of
                       Inl e \<Rightarrow> Inl e
                     | Inr st' \<Rightarrow> consume opts None st' (drop n rest))) = Inl HelpExit"
            by simp
          show ?thesis
          proof (cases "consume_optional opts rest b os sep e")
            case (Inl err)
            with unfolded consume_optional_error[OF Inl] show ?thesis by simp
          next
            case (Inr res)
            obtain steps ex n where res: "res = (steps, ex, n)" by (cases res)
            note co = Inr[unfolded res]
            show ?thesis
            proof (cases b)
              case HelpAction
              with co have "e = None \<or> \<not> prefix ''--'' os" by (auto dest: consume_optional_help)
              with HelpAction Opt Some tup cs show ?thesis by auto
            next
              case (StoreAction f d r)
              with co obtain v where steps: "steps = [Store b v]" by (auto dest: consume_optional_store)
              with unfolded co obtain st1 where "consume opts None st1 (drop n rest) = Inl HelpExit"
                by (auto split: sum.splits)
              from IH[OF _ this] obtain os' sep' e' t'
                where "(Opt (Some (HelpAction, os', sep', e')), t') \<in> set (drop n rest)"
                  and ok: "e' = None \<or> \<not> prefix ''--'' os'"
                by auto
              then have "(Opt (Some (HelpAction, os', sep', e')), t') \<in> set cs"
                using cs by (auto dest: in_set_dropD)
              with ok show ?thesis by blast
            qed
          qed
        qed
      qed
    qed
  qed
qed


lemma classify_store:
  "well_formed opts \<Longrightarrow> classify opts args = Inr cs
     \<Longrightarrow> (Opt (Some (StoreAction f d r, os, sep, e)), t) \<in> set cs
     \<Longrightarrow> t \<in> set args \<and> names_option f t"
proof (induction args arbitrary: cs)
  case Nil
  then show ?case by simp
next
  case (Cons x args)
  show ?case
  proof (cases "x = ''--''")
    case True
    with Cons.prems show ?thesis by auto
  next
    case False
    with Cons.prems(2) obtain c cs' where c: "parse_optional opts x = Inr c"
      and cs': "classify opts args = Inr cs'" and cs: "cs = (c, x) # cs'"
      by (auto simp add: and_then_eq_Inr)
    from Cons.prems(3) cs
    consider "c = Opt (Some (StoreAction f d r, os, sep, e))" "t = x"
      | "(Opt (Some (StoreAction f d r, os, sep, e)), t) \<in> set cs'" by auto
    then show ?thesis
    proof cases
      case 1
      with c parse_optional_store[OF Cons.prems(1)] show ?thesis by auto
    next
      case 2
      from Cons.IH[OF Cons.prems(1) cs' 2] show ?thesis by simp
    qed
  qed
qed

lemma classify_help:
  "well_formed opts \<Longrightarrow> classify opts args = Inr cs
     \<Longrightarrow> (Opt (Some (HelpAction, os, sep, e)), t) \<in> set cs
     \<Longrightarrow> t \<in> set args \<and> (asks_for_help t \<or> (e \<noteq> None \<and> prefix ''--'' os))"
proof (induction args arbitrary: cs)
  case Nil
  then show ?case by simp
next
  case (Cons x args)
  show ?case
  proof (cases "x = ''--''")
    case True
    with Cons.prems show ?thesis by auto
  next
    case False
    with Cons.prems(2) obtain c cs' where c: "parse_optional opts x = Inr c"
      and cs': "classify opts args = Inr cs'" and cs: "cs = (c, x) # cs'"
      by (auto simp add: and_then_eq_Inr)
    from Cons.prems(3) cs
    consider "c = Opt (Some (HelpAction, os, sep, e))" "t = x"
      | "(Opt (Some (HelpAction, os, sep, e)), t) \<in> set cs'" by auto
    then show ?thesis
    proof cases
      case 1
      with c parse_optional_help[OF Cons.prems(1) _ False] show ?thesis by auto
    next
      case 2
      from Cons.IH[OF Cons.prems(1) cs' 2] show ?thesis by simp
    qed
  qed
qed

lemma required_actions_Nil:
  "required_actions opts seen = [] \<Longrightarrow> (k, StoreAction f d True) \<in> set opts
     \<Longrightarrow> StoreAction f d True \<in> set seen"
  by (induction opts) (auto simp add: required_actions_def split: if_splits)

text \<open>The parser of a sub-command accepts only if every required option is named.\<close>

lemma sub_parser_accepts:
  assumes wf: "well_formed opts"
    and ok: "parse_known_args opts None ns args = Inr res"
    and req: "(k, StoreAction f d True) \<in> set opts"
  shows "\<exists>t \<in> set args. names_option f t"
proof -
  from ok obtain cs st where cs: "classify opts args = Inr cs"
    and st: "consume opts None \<lparr>namespace = ns, seen_actions = [], extras = [], unrecognized = []\<rparr> cs = Inr st"
    and none: "required_actions opts (seen_actions st) = []"
    by (auto simp add: parse_known_args_def and_then_eq_Inr split: if_splits)
  from required_actions_Nil[OF none req] have "StoreAction f d True \<in> set (seen_actions st)" .
  from consume_seen[OF st this]
  obtain os sep e t where "(Opt (Some (StoreAction f d True, os, sep, e)), t) \<in> set cs" by auto
  from classify_store[OF wf cs this] show ?thesis by blast
qed

text \<open>The parser of a sub-command prints the help only if an argument asks for it.\<close>

lemma sub_parser_help:
  assumes wf: "well_formed opts"
    and hx: "parse_known_args opts None ns args = Inl HelpExit"
  shows "\<exists>t \<in> set args. asks_for_help t"
proof -
  from hx classify_error[of opts args HelpExit] obtain cs where cs: "classify opts args = Inr cs"
    by (cases "classify opts args") (auto simp add: parse_known_args_def and_then_def)
  with hx have "consume opts None \<lparr>namespace = ns, seen_actions = [], extras = [], unrecognized = []\<rparr> cs
      = Inl HelpExit"
    by (auto simp add: parse_known_args_def and_then_eq_Inl split: if_splits)
  from consume_help[OF this] obtain os sep e t
    where mem: "(Opt (Some (HelpAction, os, sep, e)), t) \<in> set cs"
      and e: "e = None \<or> \<not> prefix ''--'' os" by blast
  from classify_help[OF wf cs mem] e show ?thesis by blast
qed

subsection \<open>The top-level parser\<close>

lemma top_tuples: "hd t = CHR ''-'' \<Longrightarrow> length (get_option_tuples ArgumentParser t) \<le> 1"
proof (cases t)
  case Nil
  then show ?thesis by simp
next
  case (Cons c0 t')
  assume "hd t = CHR ''-''"
  with Cons have c0: "c0 = CHR ''-''" by simp
  show ?thesis
  proof (cases t')
    case Nil
    with Cons show ?thesis by simp
  next
    case (Cons c1 cs)
    with \<open>t = c0 # t'\<close> c0 show ?thesis
      by (auto simp add: ArgumentParser_def partition_eq_def Let_def)
  qed
qed

lemma parse_optional_top: "\<exists>c. parse_optional ArgumentParser t = Inr c"
proof (cases "t \<noteq> [] \<and> hd t = CHR ''-''")
  case False
  then show ?thesis by (auto simp add: parse_optional_def)
next
  case True
  with top_tuples[of t] show ?thesis
    by (auto simp add: parse_optional_def Let_def split: option.splits prod.splits)
qed

lemma classify_top: "\<exists>cs. classify ArgumentParser args = Inr cs"
proof (induction args)
  case Nil
  show ?case by simp
next
  case (Cons a args)
  with parse_optional_top[of a] show ?case by (auto simp add: and_then_def)
qed

lemma required_actions_top: "required_actions ArgumentParser seen = []"
  by (simp add: required_actions_def ArgumentParser_def)

lemma initial_namespace_top: "initial_namespace ArgumentParser = Map.empty"
  by (simp add: initial_namespace_def ArgumentParser_def)

lemma parse_subcommand:
  assumes "\<not> prefix ''-'' a"
  shows "parse (a # rest) =
     (case map_of sub_parsers a of
        None \<Rightarrow> Inl (ErrorExit (InvalidChoice a))
      | Some p \<Rightarrow>
          (case parse_known_args p None (initial_namespace p) rest of
             Inl e \<Rightarrow> Inl e
           | Inr (subns, ex) \<Rightarrow>
               if ex \<noteq> [] then Inl (ErrorExit (UnrecognizedArguments ex))
               else Inr ([''action'' \<mapsto> PyStr a] ++ subns)))"
proof -
  from assms have "a = [] \<or> hd a \<noteq> CHR ''-''" by (cases a) auto
  then have a: "a \<noteq> ''--''" "parse_optional ArgumentParser a = Inr Arg"
    by (auto simp add: parse_optional_def)
  obtain cs where cs: "classify ArgumentParser rest = Inr cs" using classify_top by blast
  with a have cl: "classify ArgumentParser (a # rest) = Inr ((Arg, a) # cs)"
    by (simp add: and_then_def)
  have strs: "map snd cs = rest" using cs by (rule classify_strings)
  have co: "consume ArgumentParser (Some (subparsers_action sub_parsers)) st ((Arg, a) # cs)
      = subparsers_action sub_parsers (a # rest) st" for st
    using strs by (simp add: matches_parser_def)
  have pk: "parse_known_args ArgumentParser (Some (subparsers_action sub_parsers)) ns0 (a # rest) =
      (case subparsers_action sub_parsers (a # rest)
              \<lparr>namespace = ns0, seen_actions = [], extras = [], unrecognized = []\<rparr> of
         Inl e \<Rightarrow> Inl e
       | Inr st \<Rightarrow> Inr (namespace st, extras st @ unrecognized st))" for ns0
    by (simp add: parse_known_args_def cl co and_then_def required_actions_top
          del: consume.simps classify.simps)
  show ?thesis
  proof (cases "map_of sub_parsers a")
    case None
    then show ?thesis
      by (simp add: parse_def pk subparsers_action_def and_then_def)
  next
    case (Some p)
    show ?thesis
    proof (cases "parse_known_args p None (initial_namespace p) rest")
      case (Inl e)
      with Some show ?thesis
        by (simp add: parse_def pk subparsers_action_def and_then_def)
    next
      case (Inr res)
      obtain subns ex where "res = (subns, ex)" by (cases res)
      with Inr Some show ?thesis
        by (simp add: parse_def pk subparsers_action_def and_then_def initial_namespace_top)
    qed
  qed
qed

lemma sub_parsers_facts:
  assumes "(a, p) \<in> set sub_parsers"
  shows "map_of sub_parsers a = Some p" and "well_formed p" and "\<not> prefix ''-'' a"
  using assms
  by (auto simp add: sub_parsers_def well_formed_def local_train_parser_def train_parser_def
        local_batch_train_parser_def batch_train_parser_def predict_parser_def
        ArgumentParser_def add_argument_def)

text \<open>The options each action requires, and the attributes they are stored under.\<close>

lemma required_options_of_each_action:
  "required_actions local_train_parser [] = []"
  "required_actions train_parser [] = [''--bucket'', ''--path'', ''--name'']"
  "required_actions local_batch_train_parser [] = [''--project'', ''--dataset_table'']"
  "required_actions batch_train_parser [] =
     [''--bucket'', ''--name'', ''--project'', ''--dataset_table'']"
  "required_actions predict_parser [] =
     [''--version'', ''--model'', ''--origin'', ''--package-path'']"
  "map dest_of [''--bucket'', ''--path'', ''--name'', ''--project'', ''--dataset_table'',
                ''--version'', ''--model'', ''--origin'', ''--package-path''] =
     [''bucket'', ''path'', ''name'', ''project'', ''dataset_table'',
      ''version'', ''model'', ''origin'', ''package_path'']"
  by (simp_all add: required_actions_def local_train_parser_def train_parser_def
        local_batch_train_parser_def batch_train_parser_def predict_parser_def
        ArgumentParser_def add_argument_def dest_of_def)

text \<open>A complete command line is accepted, and its command is launched.\<close>

lemma train_example_run:
  "program quiet_world [''train'', ''--bucket'', ''b1'', ''--path'', ''p1'', ''--name'', ''job1''] =
     \<lparr>launched =
        [[''powershell.exe'', ''gcloud'', ''ai-platform'', ''jobs'', ''submit'', ''training'',
          ''job1'', ''--package-path'', ''modeling'', ''--module-name'',
          ''modeling.trainer.model'', ''--staging-bucket'', ''gs://b1'',
          ''--python-version'', ''3.7'', ''--runtime-version'', ''1.15'', ''--'',
          ''--bucket=b1'', ''--path=p1'']],
      exit_status = Some 0\<rparr>"
  by code_simp

lemma main_parse_error: "parse argv = Inl e \<Longrightarrow> main w argv ls = (ls, Some (Inl (SystemExit e)))"
  by (simp add: main_def)

lemma program_parse_error:
  "parse argv = Inl e \<Longrightarrow> program w argv = \<lparr>launched = [], exit_status = Some (exit_code e)\<rparr>"
  by (simp add: program_def main_def)

text \<open>
  Claim C2, as the parser has it. For every action and every one of its required
  options: if no argument after the action names the option, the parser ends the
  process, so \<^verbatim>\<open>main\<close> builds no command list and no process is launched. The exit
  status is 2, with a usage error, unless some argument asks for help: then the parser
  may print the help text and exit with status 0 instead.
\<close>

theorem missing_required_option_stops_parsing:
  assumes "(a, p) \<in> set sub_parsers"
    and "(k, StoreAction f d True) \<in> set p"
    and "\<forall>t \<in> set rest. \<not> names_option f t"
  shows "\<exists>e. parse (a # rest) = Inl e
           \<and> (e = HelpExit \<longrightarrow> (\<exists>t \<in> set rest. asks_for_help t))
           \<and> main w (a # rest) ls = (ls, Some (Inl (SystemExit e)))
           \<and> program w (a # rest) = \<lparr>launched = [], exit_status = Some (exit_code e)\<rparr>"
proof -
  note facts = sub_parsers_facts[OF assms(1)]
  have sub: "parse (a # rest) =
      (case parse_known_args p None (initial_namespace p) rest of
         Inl e \<Rightarrow> Inl e
       | Inr (subns, ex) \<Rightarrow>
           if ex \<noteq> [] then Inl (ErrorExit (UnrecognizedArguments ex))
           else Inr ([''action'' \<mapsto> PyStr a] ++ subns))"
    by (simp add: parse_subcommand[OF facts(3)] facts(1))
  show ?thesis
  proof (cases "parse_known_args p None (initial_namespace p) rest")
    case (Inl e)
    with sub have pe: "parse (a # rest) = Inl e" by simp
    have "e = HelpExit \<longrightarrow> (\<exists>t \<in> set rest. asks_for_help t)"
      using Inl sub_parser_help[OF facts(2)] by blast
    with pe show ?thesis by (simp add: main_parse_error program_parse_error)
  next
    case (Inr res)
    from sub_parser_accepts[OF facts(2) Inr assms(2)] assms(3) show ?thesis by blast
  qed
qed

theorem missing_required_option_stops_parsing_witness:
  "program quiet_world [''train'', ''--path'', ''p1'', ''--name'', ''job1'']
     = \<lparr>launched = [], exit_status = Some 2\<rparr>"
proof -
  have 1: "(''train'', train_parser) \<in> set sub_parsers" by (simp add: sub_parsers_def)
  have 2: "(''--bucket'', StoreAction ''--bucket'' ''bucket'' True) \<in> set train_parser"
    by (simp add: train_parser_def add_argument_def dest_of_def)
  have 3: "\<forall>t \<in> set [''--path'', ''p1'', ''--name'', ''job1'']. \<not> names_option ''--bucket'' t"
    by (simp add: names_option_def partition_eq_def)
  have 4: "\<not> (\<exists>t \<in> set [''--path'', ''p1'', ''--name'', ''job1'']. asks_for_help t)"
    by (simp add: asks_for_help_def)
  from missing_required_option_stops_parsing[OF 1 2 3, of quiet_world "[]"] 4
  obtain e where "e \<noteq> HelpExit"
    and "program quiet_world [''train'', ''--path'', ''p1'', ''--name'', ''job1'']
       = \<lparr>launched = [], exit_status = Some (exit_code e)\<rparr>" by blast
  then show ?thesis by (cases e) simp_all
qed

text \<open>
  Claim C2 as stated asks for a non-zero status whenever a required option is absent.
  \<^verbatim>\<open>deploy train -h\<close> has no \<^verbatim>\<open>--bucket\<close>, and the parser prints the help text and
  exits with status 0.
\<close>

theorem help_exits_with_status_0:
  "\<not> names_option ''--bucket'' ''-h''
   \<and> projl (parse [''train'', ''-h'']) = HelpExit \<and> isl (parse [''train'', ''-h''])
   \<and> program quiet_world [''train'', ''-h''] = \<lparr>launched = [], exit_status = Some 0\<rparr>"
  by code_simp

text \<open>
  Claim C3, as the parser has it. A first argument that is not the name of an action
  and does not start with a dash is rejected by the parser with a usage error and exit
  status 2, whatever follows; no action runs. With no argument at all the parser
  accepts: \<^verbatim>\<open>add_subparsers\<close> is called without \<^verbatim>\<open>required=True\<close>, the action is
  \<^verbatim>\<open>None\<close>, and it is \<^verbatim>\<open>main\<close> that raises \<^verbatim>\<open>ValueError\<close>; the program exits with
  status 1 and no action runs.
\<close>

theorem missing_or_unknown_action:
  "parse [] = Inr [''action'' \<mapsto> PyNone]
   \<and> main w [] ls = (ls, Some (Inl (ValueError (''Unknown action '' @ [CHR 0x22] @ ''None'' @ [CHR 0x22]))))
   \<and> program w [] = \<lparr>launched = [], exit_status = Some 1\<rparr>
   \<and> (a \<notin> fst ` set sub_parsers \<and> \<not> prefix ''-'' a \<longrightarrow>
        parse (a # rest) = Inl (ErrorExit (InvalidChoice a))
      \<and> main w (a # rest) ls = (ls, Some (Inl (SystemExit (ErrorExit (InvalidChoice a)))))
      \<and> program w (a # rest) = \<lparr>launched = [], exit_status = Some 2\<rparr>)"
proof -
  have p0: "parse [] = Inr [''action'' \<mapsto> PyNone]"
    by (simp add: parse_def parse_known_args_def and_then_def initial_namespace_top
          required_actions_top)
  have m0: "main w [] ls = (ls, Some (Inl (ValueError (''Unknown action '' @ [CHR 0x22] @ ''None'' @ [CHR 0x22]))))"
    by (simp add: main_def p0 getattr_def)
  have r0: "program w [] = \<lparr>launched = [], exit_status = Some 1\<rparr>"
    by (simp add: program_def main_def p0 getattr_def)
  have unknown: "parse (a # rest) = Inl (ErrorExit (InvalidChoice a))"
    if "a \<notin> fst ` set sub_parsers" and "\<not> prefix ''-'' a"
  proof -
    from that(1) have "map_of sub_parsers a = None" by (simp add: map_of_eq_None_iff)
    with parse_subcommand[OF that(2), of rest] show ?thesis by simp
  qed
  from p0 m0 r0 unknown show ?thesis
    by (auto simp add: main_parse_error program_parse_error)
qed

theorem missing_or_unknown_action_witness:
  "program quiet_world [] = \<lparr>launched = [], exit_status = Some 1\<rparr>
   \<and> parse [''deploy'', ''--bucket'', ''b1''] = Inl (ErrorExit (InvalidChoice ''deploy''))
   \<and> program quiet_world [''deploy'', ''--bucket'', ''b1''] = \<lparr>launched = [], exit_status = Some 2\<rparr>"
proof -
  have "''deploy'' \<notin> fst ` set sub_parsers \<and> \<not> prefix ''-'' ''deploy''"
    by (simp add: sub_parsers_def)
  with missing_or_unknown_action[of quiet_world "[]" "''deploy''" "[''--bucket'', ''b1'']"]
  show ?thesis by blast
qed

text \<open>
  Claim C3 as stated has the parser end the process when the action is missing.
  On the empty argument list the parser returns a namespace and \<^verbatim>\<open>main\<close> raises.
\<close>

theorem missing_action_is_not_a_usage_error:
  "\<not> isl (parse [])
   \<and> snd (main quiet_world [] []) = Some (Inl (ValueError (''Unknown action '' @ [CHR 0x22] @ ''None'' @ [CHR 0x22])))"
  by code_simp

end
